theory Spec2Isabelle
  imports Main
begin

section \<open>Data model\<close>

text \<open>
  The admin moderation service of the backend (\<open>com.studybuddy.service.AdminService\<close>).
  The repository holds two revisions of the class: the later one
  (\<open>src/unnamed/part_003\<close>) is embedded in full for the user operations, and the
  operations of the earlier one (\<open>src/unnamed/part_002\<close>) that differ are embedded
  under the suffix \<open>_earlier\<close>.

  Identifiers are Java \<open>Long\<close> values that are only compared, never computed with.
  A \<open>LocalDateTime\<close> is a point of the local time line, counted in nanoseconds;
  \<open>minusDays\<close> and \<open>plusDays\<close> move it by whole days of 86400 seconds.
\<close>

type_synonym user_id = int
type_synonym timestamp = int

definition days :: "int \<Rightarrow> int" where
  "days n = n * 86400 * 1000000000"

text \<open>
  Modelled from the spec: the enum \<open>com.studybuddy.model.Role\<close> is not among the
  sources; the spec lists its values as USER, EXPERT, ADMIN.
\<close>

datatype Role = USER | EXPERT | ADMIN

fun name :: "Role \<Rightarrow> string" where
  "name USER = ''USER''"
| "name EXPERT = ''EXPERT''"
| "name ADMIN = ''ADMIN''"

text \<open>
  Modelled from the spec: the entity \<open>com.studybuddy.model.User\<close> is not among the
  sources. Its fields are those the service reads and writes through getters and
  setters, with the types the spec gives them: the two flags are booleans, the
  timestamps and reasons are nullable (\<open>None\<close> is \<open>null\<close>).
\<close>

record user =
  uid :: user_id
  username :: string
  email :: string
  role :: Role
  isActive :: bool
  suspendedUntil :: "timestamp option"
  suspensionReason :: "string option"
  bannedAt :: "timestamp option"
  banReason :: "string option"
  isDeleted :: bool
  deletedAt :: "timestamp option"

text \<open>
  Modelled from the spec: \<open>User.isBanned()\<close> and \<open>User.isSuspended()\<close> are methods of
  the missing entity. The spec: a user is banned iff \<open>bannedAt\<close> is set, and suspended
  iff \<open>suspendedUntil\<close> is set and in the future. The second reads the clock, which
  is the argument \<open>now\<close>.
\<close>

definition isBanned :: "user \<Rightarrow> bool" where
  "isBanned u = (bannedAt u \<noteq> None)"

definition isSuspended :: "timestamp \<Rightarrow> user \<Rightarrow> bool" where
  "isSuspended now u = (case suspendedUntil u of None \<Rightarrow> False | Some t \<Rightarrow> now < t)"

text \<open>
  The values of the metadata map handed to \<open>logAction\<close>: strings and the text of a
  \<open>LocalDateTime\<close> (kept as the timestamp it renders). The map is kept
  as the list of its entries; the audit entry records the map that the service gives
  to the JSON serialiser, not the serialised text.
\<close>

datatype meta_value = Text string | Time timestamp

type_synonym metadata_map = "(string \<times> meta_value) list"

text \<open>
  \<open>com.studybuddy.model.AdminAuditLog\<close>, with the fields that \<open>logAction\<close> sets.
\<close>

record AdminAuditLog =
  adminUserId :: user_id
  actionType :: string
  targetType :: string
  targetId :: user_id
  reasonText :: string
  metadata :: "metadata_map option"

text \<open>
  The state the service works on: the rows of the user repository, the rows of the
  audit log repository in the order they were saved, the name held by the security
  context (\<open>auth.getName()\<close>), and the clock read by \<open>LocalDateTime.now()\<close>.
\<close>

record state =
  users :: "user list"
  auditLog :: "AdminAuditLog list"
  authName :: string
  clock :: timestamp

section \<open>Errors\<close>

text \<open>
  The service throws two classes of exception, told apart by their message. The
  constants below name each thrown exception by the error kind the spec gives it.
\<close>

datatype error = RuntimeException string | IllegalArgumentException string

definition NotFound :: error where
  "NotFound = RuntimeException ''User not found''"

definition AdminNotFound :: error where
  "AdminNotFound = RuntimeException ''Admin user not found''"

definition SelfModification :: "string \<Rightarrow> error" where
  "SelfModification action = IllegalArgumentException (''Cannot '' @ action @ '' your own account'')"

definition LastAdmin :: error where
  "LastAdmin = IllegalArgumentException ''Cannot modify the last admin account''"

definition SelfDemotion :: error where
  "SelfDemotion = IllegalArgumentException ''Cannot remove your own admin role''"

definition InvalidState_NotDeleted :: error where
  "InvalidState_NotDeleted = IllegalArgumentException ''User is not deleted''"

definition InvalidState_NotSoftDeleted :: error where
  "InvalidState_NotSoftDeleted =
     IllegalArgumentException ''User must be soft deleted before permanent deletion''"

definition TooSoon :: error where
  "TooSoon =
     IllegalArgumentException ''Cannot permanently delete user until 30 days after soft deletion''"

definition StillBanned :: error where
  "StillBanned = IllegalArgumentException ''Cannot enable login for banned user. Unban first.''"

definition StillSuspended :: error where
  "StillSuspended =
     IllegalArgumentException ''Cannot enable login for suspended user. Unsuspend first.''"

section \<open>Repositories\<close>

definition findById :: "user_id \<Rightarrow> state \<Rightarrow> user option" where
  "findById userId s = find (\<lambda>u. uid u = userId) (users s)"

definition findByUsername :: "string \<Rightarrow> state \<Rightarrow> user option" where
  "findByUsername n s = find (\<lambda>u. username u = n) (users s)"

definition findAll :: "state \<Rightarrow> user list" where
  "findAll s = users s"

text \<open>
  \<open>userRepository.save\<close>: the row with the entity's id is replaced; an entity with a
  new id is inserted. \<open>userRepository.delete\<close> removes the row with the entity's id.
\<close>

fun replaceRow :: "user \<Rightarrow> user list \<Rightarrow> user list" where
  "replaceRow u [] = [u]"
| "replaceRow u (v # vs) = (if uid v = uid u then u # vs else v # replaceRow u vs)"

definition save :: "user \<Rightarrow> state \<Rightarrow> state" where
  "save u s = s\<lparr>users := replaceRow u (users s)\<rparr>"

definition delete :: "user \<Rightarrow> state \<Rightarrow> state" where
  "delete u s = s\<lparr>users := filter (\<lambda>v. uid v \<noteq> uid u) (users s)\<rparr>"

definition auditSave :: "AdminAuditLog \<Rightarrow> state \<Rightarrow> state" where
  "auditSave entry s = s\<lparr>auditLog := auditLog s @ [entry]\<rparr>"

section \<open>Private helpers of the service\<close>

definition getCurrentAdmin :: "state \<Rightarrow> error + user" where
  "getCurrentAdmin s =
     (case findByUsername (authName s) s of
        None \<Rightarrow> Inl AdminNotFound
      | Some admin \<Rightarrow> Inr admin)"

definition checkSelfModification :: "user_id \<Rightarrow> string \<Rightarrow> state \<Rightarrow> error + unit" where
  "checkSelfModification targetUserId action s =
     (case getCurrentAdmin s of
        Inl e \<Rightarrow> Inl e
      | Inr currentAdmin \<Rightarrow>
          if uid currentAdmin = targetUserId then Inl (SelfModification action)
          else Inr ())"

text \<open>The count of functional admins, as the later revision filters it.\<close>

definition adminCount :: "state \<Rightarrow> nat" where
  "adminCount s =
     length (filter (\<lambda>u. role u = ADMIN \<and> \<not> isDeleted u \<and> bannedAt u = None) (findAll s))"

definition checkLastAdmin :: "user_id \<Rightarrow> state \<Rightarrow> error + unit" where
  "checkLastAdmin targetUserId s =
     (case findById targetUserId s of
        None \<Rightarrow> Inl NotFound
      | Some targetUser \<Rightarrow>
          if role targetUser = ADMIN then
            (if adminCount s \<le> 1 then Inl LastAdmin else Inr ())
          else Inr ())"

text \<open>
  The entry \<open>logAction\<close> builds: the acting admin's id, the action, the target, the
  reason, and the metadata when the map is neither \<open>null\<close> nor empty.
\<close>

definition newLog ::
  "user_id \<Rightarrow> string \<Rightarrow> string \<Rightarrow> user_id \<Rightarrow> string \<Rightarrow> metadata_map option \<Rightarrow> AdminAuditLog" where
  "newLog adminId aType tType tId reason meta =
     \<lparr>adminUserId = adminId, actionType = aType, targetType = tType,
      targetId = tId, reasonText = reason,
      metadata = (case meta of
                    None \<Rightarrow> None
                  | Some m \<Rightarrow> if m \<noteq> [] then Some m else None)\<rparr>"

definition logAction ::
  "string \<Rightarrow> string \<Rightarrow> user_id \<Rightarrow> string \<Rightarrow> metadata_map option \<Rightarrow> state \<Rightarrow> error + state" where
  "logAction aType tType tId reason meta s =
     (case getCurrentAdmin s of
        Inl e \<Rightarrow> Inl e
      | Inr admin \<Rightarrow> Inr (auditSave (newLog (uid admin) aType tType tId reason meta) s))"

text \<open>
  \<open>@Transactional\<close>: the body runs on the state; when it throws (every exception of
  the service is unchecked), the transaction is rolled back and nothing it wrote
  remains.
\<close>

definition transactional :: "(state \<Rightarrow> (error + 'a) \<times> state) \<Rightarrow> state \<Rightarrow> (error + 'a) \<times> state" where
  "transactional body s =
     (case body s of
        (Inl e, _) \<Rightarrow> (Inl e, s)
      | (Inr r, s') \<Rightarrow> (Inr r, s'))"

text \<open>
  The tail shared by the operations that return the saved user: the audit entry is
  written after the save, and a failure there leaves the saved state behind for the
  transaction to roll back.
\<close>

definition logged ::
  "string \<Rightarrow> user_id \<Rightarrow> string \<Rightarrow> metadata_map option \<Rightarrow> 'a \<Rightarrow> state \<Rightarrow> (error + 'a) \<times> state" where
  "logged aType tId reason meta r s =
     (case logAction aType ''USER'' tId reason meta s of
        Inl e \<Rightarrow> (Inl e, s)
      | Inr s' \<Rightarrow> (Inr r, s'))"

section \<open>Operations of the later revision\<close>

definition suspendUser :: "user_id \<Rightarrow> timestamp \<Rightarrow> string \<Rightarrow> state \<Rightarrow> (error + user) \<times> state" where
  "suspendUser userId until reason =
     transactional (\<lambda>s.
       case checkSelfModification userId ''suspend'' s of
         Inl e \<Rightarrow> (Inl e, s)
       | Inr _ \<Rightarrow>
           (case findById userId s of
              None \<Rightarrow> (Inl NotFound, s)
            | Some user \<Rightarrow>
                let savedUser = user\<lparr>suspendedUntil := Some until, suspensionReason := Some reason\<rparr>
                in logged ''SUSPEND'' userId reason (Some [(''suspendedUntil'', Time until)])
                     savedUser (save savedUser s)))"

definition banUser :: "user_id \<Rightarrow> string \<Rightarrow> state \<Rightarrow> (error + user) \<times> state" where
  "banUser userId reason =
     transactional (\<lambda>s.
       case checkSelfModification userId ''ban'' s of
         Inl e \<Rightarrow> (Inl e, s)
       | Inr _ \<Rightarrow>
           (case checkLastAdmin userId s of
              Inl e \<Rightarrow> (Inl e, s)
            | Inr _ \<Rightarrow>
                (case findById userId s of
                   None \<Rightarrow> (Inl NotFound, s)
                 | Some user \<Rightarrow>
                     let savedUser = user\<lparr>bannedAt := Some (clock s), banReason := Some reason,
                                           isActive := False\<rparr>
                     in logged ''BAN'' userId reason None savedUser (save savedUser s))))"

definition unsuspendUser :: "user_id \<Rightarrow> string \<Rightarrow> state \<Rightarrow> (error + user) \<times> state" where
  "unsuspendUser userId reason =
     transactional (\<lambda>s.
       case findById userId s of
         None \<Rightarrow> (Inl NotFound, s)
       | Some user \<Rightarrow>
           let savedUser = user\<lparr>suspendedUntil := None, suspensionReason := None\<rparr>
           in logged ''UNSUSPEND'' userId reason None savedUser (save savedUser s))"

definition unbanUser :: "user_id \<Rightarrow> string \<Rightarrow> state \<Rightarrow> (error + user) \<times> state" where
  "unbanUser userId reason =
     transactional (\<lambda>s.
       case findById userId s of
         None \<Rightarrow> (Inl NotFound, s)
       | Some user \<Rightarrow>
           let savedUser = user\<lparr>bannedAt := None, banReason := None\<rparr>
           in logged ''UNBAN'' userId reason None savedUser (save savedUser s))"

definition softDeleteUser :: "user_id \<Rightarrow> string \<Rightarrow> state \<Rightarrow> (error + user) \<times> state" where
  "softDeleteUser userId reason =
     transactional (\<lambda>s.
       case checkSelfModification userId ''delete'' s of
         Inl e \<Rightarrow> (Inl e, s)
       | Inr _ \<Rightarrow>
           (case checkLastAdmin userId s of
              Inl e \<Rightarrow> (Inl e, s)
            | Inr _ \<Rightarrow>
                (case findById userId s of
                   None \<Rightarrow> (Inl NotFound, s)
                 | Some user \<Rightarrow>
                     let savedUser = user\<lparr>isDeleted := True, deletedAt := Some (clock s),
                                           isActive := False\<rparr>
                     in logged ''SOFT_DELETE'' userId reason None savedUser (save savedUser s))))"

definition restoreUser :: "user_id \<Rightarrow> string \<Rightarrow> state \<Rightarrow> (error + user) \<times> state" where
  "restoreUser userId reason =
     transactional (\<lambda>s.
       case findById userId s of
         None \<Rightarrow> (Inl NotFound, s)
       | Some user \<Rightarrow>
           if \<not> isDeleted user then (Inl InvalidState_NotDeleted, s)
           else
             let user1 = user\<lparr>isDeleted := False, deletedAt := None\<rparr>;
                 savedUser = (if \<not> isBanned user1 \<and> \<not> isSuspended (clock s) user1
                              then user1\<lparr>isActive := True\<rparr> else user1)
             in logged ''RESTORE'' userId reason None savedUser (save savedUser s))"

definition permanentDeleteUser :: "user_id \<Rightarrow> string \<Rightarrow> state \<Rightarrow> (error + unit) \<times> state" where
  "permanentDeleteUser userId reason =
     transactional (\<lambda>s.
       case checkSelfModification userId ''permanently delete'' s of
         Inl e \<Rightarrow> (Inl e, s)
       | Inr _ \<Rightarrow>
           (case checkLastAdmin userId s of
              Inl e \<Rightarrow> (Inl e, s)
            | Inr _ \<Rightarrow>
                (case findById userId s of
                   None \<Rightarrow> (Inl NotFound, s)
                 | Some user \<Rightarrow>
                     if \<not> isDeleted user then (Inl InvalidState_NotSoftDeleted, s)
                     else
                       let thirtyDaysAgo = clock s - days 30
                       in if (case deletedAt user of None \<Rightarrow> False | Some d \<Rightarrow> thirtyDaysAgo < d)
                          then (Inl TooSoon, s)
                          else
                            (case logAction ''PERMANENT_DELETE'' ''USER'' userId reason None s of
                               Inl e \<Rightarrow> (Inl e, s)
                             | Inr s' \<Rightarrow> (Inr (), delete user s')))))"

definition updateUserRole :: "user_id \<Rightarrow> Role \<Rightarrow> string \<Rightarrow> state \<Rightarrow> (error + user) \<times> state" where
  "updateUserRole userId newRole reason =
     transactional (\<lambda>s.
       case findById userId s of
         None \<Rightarrow> (Inl NotFound, s)
       | Some user \<Rightarrow>
           (case getCurrentAdmin s of
              Inl e \<Rightarrow> (Inl e, s)
            | Inr currentAdmin \<Rightarrow>
                if uid currentAdmin = userId \<and> role user = ADMIN \<and> newRole \<noteq> ADMIN
                then (Inl SelfDemotion, s)
                else
                  (case (if role user = ADMIN \<and> newRole \<noteq> ADMIN then checkLastAdmin userId s
                         else Inr ()) of
                     Inl e \<Rightarrow> (Inl e, s)
                   | Inr _ \<Rightarrow>
                       let oldRole = role user;
                           savedUser = user\<lparr>role := newRole\<rparr>
                       in logged ''ROLE_CHANGE'' userId reason
                            (Some [(''oldRole'', Text (name oldRole)), (''newRole'', Text (name newRole))])
                            savedUser (save savedUser s))))"

definition disableLogin :: "user_id \<Rightarrow> string \<Rightarrow> state \<Rightarrow> (error + user) \<times> state" where
  "disableLogin userId reason =
     transactional (\<lambda>s.
       case checkSelfModification userId ''disable login for'' s of
         Inl e \<Rightarrow> (Inl e, s)
       | Inr _ \<Rightarrow>
           (case findById userId s of
              None \<Rightarrow> (Inl NotFound, s)
            | Some user \<Rightarrow>
                let savedUser = user\<lparr>isActive := False\<rparr>
                in logged ''DISABLE_LOGIN'' userId reason None savedUser (save savedUser s)))"

definition enableLogin :: "user_id \<Rightarrow> string \<Rightarrow> state \<Rightarrow> (error + user) \<times> state" where
  "enableLogin userId reason =
     transactional (\<lambda>s.
       case findById userId s of
         None \<Rightarrow> (Inl NotFound, s)
       | Some user \<Rightarrow>
           if isBanned user then (Inl StillBanned, s)
           else if isSuspended (clock s) user then (Inl StillSuspended, s)
           else
             let savedUser = user\<lparr>isActive := True\<rparr>
             in logged ''ENABLE_LOGIN'' userId reason None savedUser (save savedUser s))"

section \<open>Operations of the earlier revision\<close>

text \<open>
  The earlier revision of the class differs in these operations: \<open>suspendUser\<close> also
  switches login off, \<open>banUser\<close> does not call \<open>checkLastAdmin\<close>, and lifting a
  suspension or a ban switches login back on unless the other restriction still holds.
\<close>

definition suspendUser_earlier ::
  "user_id \<Rightarrow> timestamp \<Rightarrow> string \<Rightarrow> state \<Rightarrow> (error + user) \<times> state" where
  "suspendUser_earlier userId until reason =
     transactional (\<lambda>s.
       case checkSelfModification userId ''suspend'' s of
         Inl e \<Rightarrow> (Inl e, s)
       | Inr _ \<Rightarrow>
           (case findById userId s of
              None \<Rightarrow> (Inl NotFound, s)
            | Some user \<Rightarrow>
                let savedUser = user\<lparr>suspendedUntil := Some until, suspensionReason := Some reason,
                                      isActive := False\<rparr>
                in logged ''SUSPEND'' userId reason (Some [(''suspendedUntil'', Time until)])
                     savedUser (save savedUser s)))"

definition banUser_earlier :: "user_id \<Rightarrow> string \<Rightarrow> state \<Rightarrow> (error + user) \<times> state" where
  "banUser_earlier userId reason =
     transactional (\<lambda>s.
       case checkSelfModification userId ''ban'' s of
         Inl e \<Rightarrow> (Inl e, s)
       | Inr _ \<Rightarrow>
           (case findById userId s of
              None \<Rightarrow> (Inl NotFound, s)
            | Some user \<Rightarrow>
                let savedUser = user\<lparr>bannedAt := Some (clock s), banReason := Some reason,
                                      isActive := False\<rparr>
                in logged ''BAN'' userId reason None savedUser (save savedUser s)))"

definition unsuspendUser_earlier :: "user_id \<Rightarrow> string \<Rightarrow> state \<Rightarrow> (error + user) \<times> state" where
  "unsuspendUser_earlier userId reason =
     transactional (\<lambda>s.
       case findById userId s of
         None \<Rightarrow> (Inl NotFound, s)
       | Some user \<Rightarrow>
           let user1 = user\<lparr>suspendedUntil := None, suspensionReason := None\<rparr>;
               savedUser = (if \<not> isBanned user1 then user1\<lparr>isActive := True\<rparr> else user1)
           in logged ''UNSUSPEND'' userId reason None savedUser (save savedUser s))"

definition unbanUser_earlier :: "user_id \<Rightarrow> string \<Rightarrow> state \<Rightarrow> (error + user) \<times> state" where
  "unbanUser_earlier userId reason =
     transactional (\<lambda>s.
       case findById userId s of
         None \<Rightarrow> (Inl NotFound, s)
       | Some user \<Rightarrow>
           let user1 = user\<lparr>bannedAt := None, banReason := None\<rparr>;
               savedUser = (if \<not> isSuspended (clock s) user1 then user1\<lparr>isActive := True\<rparr>
                            else user1)
           in logged ''UNBAN'' userId reason None savedUser (save savedUser s))"

section \<open>The audit property\<close>

text \<open>
  What an operation on target \<open>tId\<close> with action type \<open>aType\<close> owes the audit log:
  started in \<open>s\<close> with outcome \<open>out\<close>, a failure leaves the log as it was and a
  success leaves it longer by one entry, the last one, for that target and action.
\<close>

definition audited :: "string \<Rightarrow> user_id \<Rightarrow> state \<Rightarrow> (error + 'a) \<times> state \<Rightarrow> bool" where
  "audited aType tId s out =
     (case out of
        (Inl _, s') \<Rightarrow> auditLog s' = auditLog s
      | (Inr _, s') \<Rightarrow>
          length (auditLog s') = Suc (length (auditLog s))
          \<and> butlast (auditLog s') = auditLog s
          \<and> targetId (last (auditLog s')) = tId
          \<and> actionType (last (auditLog s')) = aType)"

section \<open>Example states\<close>

definition mkUser :: "user_id \<Rightarrow> string \<Rightarrow> Role \<Rightarrow> user" where
  "mkUser i n r =
     \<lparr>uid = i, username = n, email = n @ ''@example.org'', role = r, isActive = True,
      suspendedUntil = None, suspensionReason = None, bannedAt = None, banReason = None,
      isDeleted = False, deletedAt = None\<rparr>"

definition alice :: user where
  "alice = mkUser 1 ''alice'' ADMIN"

definition mallory :: user where
  "mallory = mkUser 42 ''mallory'' USER"

text \<open>A second admin account that has been banned.\<close>

definition carol :: user where
  "carol = (mkUser 3 ''carol'' ADMIN)\<lparr>bannedAt := Some 0, banReason := Some ''abuse'',
                                       isActive := False\<rparr>"

text \<open>Alice is the acting admin; the clock stands at day 1000.\<close>

definition asAlice :: "user list \<Rightarrow> state" where
  "asAlice us = \<lparr>users = us, auditLog = [], authName = ''alice'', clock = days 1000\<rparr>"

section \<open>Facts about the repositories\<close>

lemma findById_uid: "findById i s = Some u \<Longrightarrow> uid u = i"
  by (auto simp: findById_def find_Some_iff)

lemma find_replaceRow:
  "find (\<lambda>v. uid v = i) (replaceRow u xs)
     = (if uid u = i then Some u else find (\<lambda>v. uid v = i) xs)"
  by (induction xs) auto

lemma findById_save [simp]:
  "findById i (save u s) = (if uid u = i then Some u else findById i s)"
  by (simp add: findById_def save_def find_replaceRow)

lemma findById_auditSave [simp]: "findById i (auditSave e s) = findById i s"
  by (simp add: findById_def auditSave_def)

lemma findById_clock [simp]: "findById i (s\<lparr>clock := t\<rparr>) = findById i s"
  by (simp add: findById_def)

lemma find_filter_uid:
  "find (\<lambda>v. uid v = i) (filter (\<lambda>v. uid v \<noteq> k) xs)
     = (if k = i then None else find (\<lambda>v. uid v = i) xs)"
  by (induction xs) auto

lemma findById_delete [simp]:
  "findById i (delete u s) = (if uid u = i then None else findById i s)"
  by (simp add: findById_def delete_def find_filter_uid)

section \<open>The acting admin across a save\<close>

lemma find_username_replaceRow:
  "find (\<lambda>v. uid v = uid u) xs = Some u0 \<Longrightarrow> username u = username u0 \<Longrightarrow>
   find (\<lambda>v. username v = n) xs = Some a \<Longrightarrow>
   \<exists>a'. find (\<lambda>v. username v = n) (replaceRow u xs) = Some a' \<and> uid a' = uid a"
  by (induction xs) (auto split: if_splits)

lemma getCurrentAdmin_save:
  assumes "getCurrentAdmin s = Inr a" and "findById (uid u) s = Some u0"
    and "username u = username u0"
  shows "\<exists>a'. getCurrentAdmin (save u s) = Inr a' \<and> uid a' = uid a"
proof -
  from assms(1) have "find (\<lambda>v. username v = authName s) (users s) = Some a"
    by (auto simp: getCurrentAdmin_def findByUsername_def split: option.splits)
  with assms(2,3) obtain a' where
    "find (\<lambda>v. username v = authName s) (replaceRow u (users s)) = Some a'" "uid a' = uid a"
    using find_username_replaceRow [of u "users s" u0 "authName s" a]
    by (auto simp: findById_def)
  then show ?thesis
    by (simp add: getCurrentAdmin_def findByUsername_def save_def)
qed

lemma getCurrentAdmin_clock [simp]: "getCurrentAdmin (s\<lparr>clock := t\<rparr>) = getCurrentAdmin s"
  by (simp add: getCurrentAdmin_def findByUsername_def)

lemma getCurrentAdmin_auditSave [simp]: "getCurrentAdmin (auditSave e s) = getCurrentAdmin s"
  by (simp add: getCurrentAdmin_def findByUsername_def auditSave_def)

lemma adminCount_clock [simp]: "adminCount (s\<lparr>clock := t\<rparr>) = adminCount s"
  by (simp add: adminCount_def findAll_def)

text \<open>
  The state an operation commits: the saved user, then the audit entry of the acting
  admin.
\<close>

lemma logged_save:
  assumes "getCurrentAdmin s = Inr a" and "findById (uid u) s = Some u0"
    and "username u = username u0"
  shows "logged aType tId reason meta r (save u s) =
    (Inr r, auditSave (newLog (uid a) aType ''USER'' tId reason meta) (save u s))"
proof -
  obtain a' where "getCurrentAdmin (save u s) = Inr a'" "uid a' = uid a"
    using getCurrentAdmin_save [OF assms] by blast
  then show ?thesis by (simp add: logged_def logAction_def)
qed

lemma targetId_newLog [simp]: "targetId (newLog adm aType tType tId reason meta) = tId"
  by (simp add: newLog_def)

lemma actionType_newLog [simp]: "actionType (newLog adm aType tType tId reason meta) = aType"
  by (simp add: newLog_def)

section \<open>Suspension\<close>

text \<open>
  C2. For an existing user other than the acting admin, \<open>suspendUser\<close> succeeds and
  returns and stores the user with \<open>suspendedUntil\<close> and \<open>suspensionReason\<close> set to
  the given values and every other field, \<open>isActive\<close> among them, as it was; no other
  user changes.
\<close>

theorem suspendUser_frame:
  assumes "findById userId s = Some u"
    and "getCurrentAdmin s = Inr a"
    and "uid a \<noteq> userId"
  shows "\<exists>s'. suspendUser userId until reason s
            = (Inr (u\<lparr>suspendedUntil := Some until, suspensionReason := Some reason\<rparr>), s')
          \<and> findById userId s'
            = Some (u\<lparr>suspendedUntil := Some until, suspensionReason := Some reason\<rparr>)
          \<and> isActive (u\<lparr>suspendedUntil := Some until, suspensionReason := Some reason\<rparr>)
            = isActive u
          \<and> (\<forall>j. j \<noteq> userId \<longrightarrow> findById j s' = findById j s)"
proof -
  let ?u' = "u\<lparr>suspendedUntil := Some until, suspensionReason := Some reason\<rparr>"
  have id: "uid u = userId" using assms(1) by (rule findById_uid)
  have "findById (uid ?u') s = Some u" "username ?u' = username u"
    using assms(1) id by simp_all
  note commit = logged_save [OF assms(2) this]
  show ?thesis
    using assms id
    by (simp add: suspendUser_def transactional_def checkSelfModification_def Let_def commit)
qed

theorem suspendUser_frame_witness:
  "findById 42 (asAlice [alice, mallory]) = Some mallory
   \<and> getCurrentAdmin (asAlice [alice, mallory]) = Inr alice
   \<and> uid alice \<noteq> 42
   \<and> fst (suspendUser 42 (days 1007) ''spam'' (asAlice [alice, mallory]))
       = Inr (mallory\<lparr>suspendedUntil := Some (days 1007), suspensionReason := Some ''spam''\<rparr>)"
proof -
  have h1: "findById 42 (asAlice [alice, mallory]) = Some mallory"
    by (simp add: findById_def asAlice_def alice_def mallory_def mkUser_def)
  have h2: "getCurrentAdmin (asAlice [alice, mallory]) = Inr alice"
    by (simp add: getCurrentAdmin_def findByUsername_def asAlice_def alice_def mallory_def mkUser_def)
  have h3: "uid alice \<noteq> 42"
    by (simp add: alice_def mkUser_def)
  from suspendUser_frame [OF h1 h2 h3, of "days 1007" "''spam''"] h1 h2 h3
  show ?thesis by auto
qed

section \<open>Self-modification\<close>

text \<open>
  C6. Invoked by the acting admin on the admin's own id, \<open>suspendUser\<close>, \<open>banUser\<close>,
  \<open>softDeleteUser\<close>, \<open>permanentDeleteUser\<close> and \<open>disableLogin\<close> fail with the
  self-modification error of the operation, and \<open>updateUserRole\<close> away from ADMIN on
  the admin's own ADMIN account fails with the self-demotion error; each leaves the
  state, and so the admin's record, as it was.
\<close>

theorem self_modification_rejected:
  assumes "getCurrentAdmin s = Inr a"
  shows "suspendUser (uid a) until reason s = (Inl (SelfModification ''suspend''), s)
       \<and> banUser (uid a) reason s = (Inl (SelfModification ''ban''), s)
       \<and> softDeleteUser (uid a) reason s = (Inl (SelfModification ''delete''), s)
       \<and> permanentDeleteUser (uid a) reason s = (Inl (SelfModification ''permanently delete''), s)
       \<and> disableLogin (uid a) reason s = (Inl (SelfModification ''disable login for''), s)
       \<and> (\<forall>u. findById (uid a) s = Some u \<and> role u = ADMIN \<and> newRole \<noteq> ADMIN
              \<longrightarrow> updateUserRole (uid a) newRole reason s = (Inl SelfDemotion, s))"
  using assms
  by (simp add: suspendUser_def banUser_def softDeleteUser_def permanentDeleteUser_def
      disableLogin_def updateUserRole_def transactional_def checkSelfModification_def)

lemma alice_state [simp]:
  "getCurrentAdmin (asAlice (alice # us)) = Inr alice"
  "findById 1 (asAlice (alice # us)) = Some alice"
  "uid alice = 1" "role alice = ADMIN"
  by (simp_all add: getCurrentAdmin_def findByUsername_def findById_def asAlice_def alice_def mkUser_def)

theorem self_modification_rejected_witness:
  "getCurrentAdmin (asAlice [alice, mallory]) = Inr alice
   \<and> suspendUser 1 (days 1007) ''test'' (asAlice [alice, mallory])
       = (Inl (SelfModification ''suspend''), asAlice [alice, mallory])
   \<and> banUser 1 ''test'' (asAlice [alice, mallory])
       = (Inl (SelfModification ''ban''), asAlice [alice, mallory])
   \<and> softDeleteUser 1 ''test'' (asAlice [alice, mallory])
       = (Inl (SelfModification ''delete''), asAlice [alice, mallory])
   \<and> permanentDeleteUser 1 ''test'' (asAlice [alice, mallory])
       = (Inl (SelfModification ''permanently delete''), asAlice [alice, mallory])
   \<and> disableLogin 1 ''test'' (asAlice [alice, mallory])
       = (Inl (SelfModification ''disable login for''), asAlice [alice, mallory])
   \<and> updateUserRole 1 USER ''test'' (asAlice [alice, mallory])
       = (Inl SelfDemotion, asAlice [alice, mallory])"
  using self_modification_rejected [of "asAlice [alice, mallory]" alice "days 1007" "''test''" USER]
  by simp

section \<open>The last functional admin\<close>

lemma checkLastAdmin_blocks:
  "findById userId s = Some u \<Longrightarrow> role u = ADMIN \<Longrightarrow> adminCount s \<le> 1 \<Longrightarrow>
   checkLastAdmin userId s = Inl LastAdmin"
  by (simp add: checkLastAdmin_def)

text \<open>
  C1, amended. When the acting admin exists and is not the target, the target has role
  ADMIN and at most one user is an ADMIN that is neither soft-deleted nor banned, then
  \<open>banUser\<close>, \<open>softDeleteUser\<close>, \<open>permanentDeleteUser\<close> and \<open>updateUserRole\<close> to a
  role other than ADMIN fail with the last-admin error and leave the state as it was.
\<close>

theorem last_admin_protected:
  assumes "findById userId s = Some u" and "role u = ADMIN" and "adminCount s \<le> 1"
    and "getCurrentAdmin s = Inr a" and "uid a \<noteq> userId"
  shows "banUser userId reason s = (Inl LastAdmin, s)
       \<and> softDeleteUser userId reason s = (Inl LastAdmin, s)
       \<and> permanentDeleteUser userId reason s = (Inl LastAdmin, s)
       \<and> (newRole \<noteq> ADMIN \<longrightarrow> updateUserRole userId newRole reason s = (Inl LastAdmin, s))"
  using assms checkLastAdmin_blocks [OF assms(1-3)]
  by (simp add: banUser_def softDeleteUser_def permanentDeleteUser_def updateUserRole_def
      transactional_def checkSelfModification_def)

lemma carol_state [simp]:
  "findById 3 (asAlice [alice, carol]) = Some carol"
  "role carol = ADMIN"
  "adminCount (asAlice [alice, carol]) = 1"
  by (simp_all add: findById_def adminCount_def findAll_def asAlice_def alice_def carol_def mkUser_def)

theorem last_admin_protected_witness:
  "findById 3 (asAlice [alice, carol]) = Some carol \<and> role carol = ADMIN
   \<and> adminCount (asAlice [alice, carol]) \<le> 1
   \<and> getCurrentAdmin (asAlice [alice, carol]) = Inr alice \<and> uid alice \<noteq> 3
   \<and> banUser 3 ''test'' (asAlice [alice, carol]) = (Inl LastAdmin, asAlice [alice, carol])
   \<and> softDeleteUser 3 ''test'' (asAlice [alice, carol]) = (Inl LastAdmin, asAlice [alice, carol])
   \<and> permanentDeleteUser 3 ''test'' (asAlice [alice, carol]) = (Inl LastAdmin, asAlice [alice, carol])
   \<and> updateUserRole 3 USER ''test'' (asAlice [alice, carol]) = (Inl LastAdmin, asAlice [alice, carol])"
  using last_admin_protected [of 3 "asAlice [alice, carol]" carol alice "''test''" USER]
  by simp

text \<open>
  The claim fails when the last admin is the caller: the self-modification check comes
  first, and the error is the self-modification (or self-demotion) error.
\<close>

theorem last_admin_self_counterexample:
  "findById 1 (asAlice [alice]) = Some alice \<and> role alice = ADMIN
   \<and> adminCount (asAlice [alice]) \<le> 1
   \<and> banUser 1 ''test'' (asAlice [alice]) = (Inl (SelfModification ''ban''), asAlice [alice])
   \<and> softDeleteUser 1 ''test'' (asAlice [alice]) = (Inl (SelfModification ''delete''), asAlice [alice])
   \<and> permanentDeleteUser 1 ''test'' (asAlice [alice])
       = (Inl (SelfModification ''permanently delete''), asAlice [alice])
   \<and> updateUserRole 1 USER ''test'' (asAlice [alice]) = (Inl SelfDemotion, asAlice [alice])
   \<and> SelfModification ''ban'' \<noteq> LastAdmin
   \<and> SelfModification ''delete'' \<noteq> LastAdmin
   \<and> SelfModification ''permanently delete'' \<noteq> LastAdmin
   \<and> SelfDemotion \<noteq> LastAdmin"
  by (simp add: banUser_def softDeleteUser_def permanentDeleteUser_def updateUserRole_def
      transactional_def checkSelfModification_def adminCount_def findAll_def
      SelfModification_def LastAdmin_def SelfDemotion_def)
    (simp add: asAlice_def alice_def mkUser_def)

text \<open>
  The earlier revision's \<open>banUser\<close> has no last-admin check: it bans any existing user
  other than the caller.
\<close>

lemma banUser_earlier_unguarded:
  assumes "findById userId s = Some u" and "getCurrentAdmin s = Inr a" and "uid a \<noteq> userId"
  shows "\<exists>s'. banUser_earlier userId reason s
           = (Inr (u\<lparr>bannedAt := Some (clock s), banReason := Some reason, isActive := False\<rparr>), s')"
proof -
  let ?u' = "u\<lparr>bannedAt := Some (clock s), banReason := Some reason, isActive := False\<rparr>"
  have id: "uid u = userId" using assms(1) by (rule findById_uid)
  have "findById (uid ?u') s = Some u" "username ?u' = username u"
    using assms(1) id by simp_all
  note commit = logged_save [OF assms(2) this]
  show ?thesis
    using assms id
    by (simp add: banUser_earlier_def transactional_def checkSelfModification_def Let_def commit)
qed

section \<open>What each operation commits\<close>

text \<open>
  With the target found as \<open>u\<close> and the acting admin as \<open>a\<close>, a successful operation
  returns the updated user and commits exactly the save of that user followed by the
  audit entry.
\<close>

lemma commit:
  assumes "findById userId s = Some u" and "getCurrentAdmin s = Inr a"
    and "uid u' = uid u" and "username u' = username u"
  shows "logged aType userId reason meta r (save u' s)
    = (Inr r, auditSave (newLog (uid a) aType ''USER'' userId reason meta) (save u' s))"
proof -
  have "uid u = userId" using assms(1) by (rule findById_uid)
  then have "findById (uid u') s = Some u" using assms(1,3) by simp
  from logged_save [OF assms(2) this assms(4)] show ?thesis .
qed

lemma suspendUser_ok:
  assumes "findById userId s = Some u" and "getCurrentAdmin s = Inr a" and "uid a \<noteq> userId"
  shows "suspendUser userId until reason s =
    (Inr (u\<lparr>suspendedUntil := Some until, suspensionReason := Some reason\<rparr>),
     auditSave (newLog (uid a) ''SUSPEND'' ''USER'' userId reason (Some [(''suspendedUntil'', Time until)]))
       (save (u\<lparr>suspendedUntil := Some until, suspensionReason := Some reason\<rparr>) s))"
  using assms
  by (simp add: suspendUser_def transactional_def checkSelfModification_def Let_def
      commit [OF assms(1,2)])

lemma unsuspendUser_ok:
  assumes "findById userId s = Some u" and "getCurrentAdmin s = Inr a"
  shows "unsuspendUser userId reason s =
    (Inr (u\<lparr>suspendedUntil := None, suspensionReason := None\<rparr>),
     auditSave (newLog (uid a) ''UNSUSPEND'' ''USER'' userId reason None)
       (save (u\<lparr>suspendedUntil := None, suspensionReason := None\<rparr>) s))"
  using assms
  by (simp add: unsuspendUser_def transactional_def Let_def commit [OF assms(1,2)])

lemma unbanUser_ok:
  assumes "findById userId s = Some u" and "getCurrentAdmin s = Inr a"
  shows "unbanUser userId reason s =
    (Inr (u\<lparr>bannedAt := None, banReason := None\<rparr>),
     auditSave (newLog (uid a) ''UNBAN'' ''USER'' userId reason None)
       (save (u\<lparr>bannedAt := None, banReason := None\<rparr>) s))"
  using assms
  by (simp add: unbanUser_def transactional_def Let_def commit [OF assms(1,2)])

lemma disableLogin_ok:
  assumes "findById userId s = Some u" and "getCurrentAdmin s = Inr a" and "uid a \<noteq> userId"
  shows "disableLogin userId reason s =
    (Inr (u\<lparr>isActive := False\<rparr>),
     auditSave (newLog (uid a) ''DISABLE_LOGIN'' ''USER'' userId reason None)
       (save (u\<lparr>isActive := False\<rparr>) s))"
  using assms
  by (simp add: disableLogin_def transactional_def checkSelfModification_def Let_def
      commit [OF assms(1,2)])

lemma banUser_ok:
  assumes "findById userId s = Some u" and "getCurrentAdmin s = Inr a" and "uid a \<noteq> userId"
    and "\<not> (role u = ADMIN \<and> adminCount s \<le> 1)"
  shows "banUser userId reason s =
    (Inr (u\<lparr>bannedAt := Some (clock s), banReason := Some reason, isActive := False\<rparr>),
     auditSave (newLog (uid a) ''BAN'' ''USER'' userId reason None)
       (save (u\<lparr>bannedAt := Some (clock s), banReason := Some reason, isActive := False\<rparr>) s))"
  using assms
  by (simp add: banUser_def transactional_def checkSelfModification_def checkLastAdmin_def Let_def
      commit [OF assms(1,2)])

lemma softDeleteUser_ok:
  assumes "findById userId s = Some u" and "getCurrentAdmin s = Inr a" and "uid a \<noteq> userId"
    and "\<not> (role u = ADMIN \<and> adminCount s \<le> 1)"
  shows "softDeleteUser userId reason s =
    (Inr (u\<lparr>isDeleted := True, deletedAt := Some (clock s), isActive := False\<rparr>),
     auditSave (newLog (uid a) ''SOFT_DELETE'' ''USER'' userId reason None)
       (save (u\<lparr>isDeleted := True, deletedAt := Some (clock s), isActive := False\<rparr>) s))"
  using assms
  by (simp add: softDeleteUser_def transactional_def checkSelfModification_def checkLastAdmin_def
      Let_def commit [OF assms(1,2)])

lemma enableLogin_ok:
  assumes "findById userId s = Some u" and "getCurrentAdmin s = Inr a"
    and "bannedAt u = None" and "\<not> isSuspended (clock s) u"
  shows "enableLogin userId reason s =
    (Inr (u\<lparr>isActive := True\<rparr>),
     auditSave (newLog (uid a) ''ENABLE_LOGIN'' ''USER'' userId reason None)
       (save (u\<lparr>isActive := True\<rparr>) s))"
  using assms
  by (simp add: enableLogin_def transactional_def isBanned_def Let_def commit [OF assms(1,2)])

lemma restoreUser_ok:
  assumes "findById userId s = Some u" and "getCurrentAdmin s = Inr a" and "isDeleted u"
  shows "restoreUser userId reason s =
    (Inr (u\<lparr>isDeleted := False, deletedAt := None,
             isActive := (if bannedAt u = None \<and> \<not> isSuspended (clock s) u then True
                          else isActive u)\<rparr>),
     auditSave (newLog (uid a) ''RESTORE'' ''USER'' userId reason None)
       (save (u\<lparr>isDeleted := False, deletedAt := None,
                isActive := (if bannedAt u = None \<and> \<not> isSuspended (clock s) u then True
                             else isActive u)\<rparr>) s))"
  using assms
  by (simp add: restoreUser_def transactional_def isBanned_def isSuspended_def Let_def
      commit [OF assms(1,2)])

lemma suspendUser_earlier_ok:
  assumes "findById userId s = Some u" and "getCurrentAdmin s = Inr a" and "uid a \<noteq> userId"
  shows "suspendUser_earlier userId until reason s =
    (Inr (u\<lparr>suspendedUntil := Some until, suspensionReason := Some reason, isActive := False\<rparr>),
     auditSave (newLog (uid a) ''SUSPEND'' ''USER'' userId reason (Some [(''suspendedUntil'', Time until)]))
       (save (u\<lparr>suspendedUntil := Some until, suspensionReason := Some reason,
                isActive := False\<rparr>) s))"
  using assms
  by (simp add: suspendUser_earlier_def transactional_def checkSelfModification_def Let_def
      commit [OF assms(1,2)])

lemma unsuspendUser_earlier_ok:
  assumes "findById userId s = Some u" and "getCurrentAdmin s = Inr a"
  shows "unsuspendUser_earlier userId reason s =
    (Inr (u\<lparr>suspendedUntil := None, suspensionReason := None,
             isActive := (if bannedAt u = None then True else isActive u)\<rparr>),
     auditSave (newLog (uid a) ''UNSUSPEND'' ''USER'' userId reason None)
       (save (u\<lparr>suspendedUntil := None, suspensionReason := None,
                isActive := (if bannedAt u = None then True else isActive u)\<rparr>) s))"
  using assms
  by (simp add: unsuspendUser_earlier_def transactional_def isBanned_def Let_def
      commit [OF assms(1,2)])

lemma unbanUser_earlier_ok:
  assumes "findById userId s = Some u" and "getCurrentAdmin s = Inr a"
  shows "unbanUser_earlier userId reason s =
    (Inr (u\<lparr>bannedAt := None, banReason := None,
             isActive := (if \<not> isSuspended (clock s) u then True else isActive u)\<rparr>),
     auditSave (newLog (uid a) ''UNBAN'' ''USER'' userId reason None)
       (save (u\<lparr>bannedAt := None, banReason := None,
                isActive := (if \<not> isSuspended (clock s) u then True else isActive u)\<rparr>) s))"
  using assms
  by (simp add: unbanUser_earlier_def transactional_def isSuspended_def Let_def
      commit [OF assms(1,2)])

section \<open>Lifting a ban\<close>

lemma banUser_pre:
  assumes "banUser userId reason s = (Inr u1, s1)"
  shows "\<exists>u a. findById userId s = Some u \<and> getCurrentAdmin s = Inr a \<and> uid a \<noteq> userId
               \<and> \<not> (role u = ADMIN \<and> adminCount s \<le> 1)"
  using assms
  by (auto simp: banUser_def transactional_def checkSelfModification_def checkLastAdmin_def
      split: sum.splits option.splits if_splits)

text \<open>After a commit the acting admin is still found, under the same id.\<close>

lemma getCurrentAdmin_commit:
  assumes "findById userId s = Some u" and "getCurrentAdmin s = Inr a"
    and "uid u' = uid u" and "username u' = username u"
  shows "\<exists>a'. getCurrentAdmin (auditSave e (save u' s)) = Inr a' \<and> uid a' = uid a"
proof -
  have "uid u = userId" using assms(1) by (rule findById_uid)
  then have "findById (uid u') s = Some u" using assms(1,3) by simp
  from getCurrentAdmin_save [OF assms(2) this assms(4)] show ?thesis by simp
qed

lemma unbanUser_isActive:
  "map_option isActive (findById j (snd (unbanUser userId reason s)))
     = map_option isActive (findById j s)"
proof (cases "findById userId s")
  case None
  then show ?thesis by (simp add: unbanUser_def transactional_def)
next
  case (Some u)
  then have id: "uid u = userId" by (rule findById_uid)
  show ?thesis
  proof (cases "getCurrentAdmin s")
    case (Inr a)
    show ?thesis using Some id by (auto simp: unbanUser_ok [OF Some Inr])
  next
    case (Inl e)
    have "snd (unbanUser userId reason s) = s \<or>
          (\<exists>ent. snd (unbanUser userId reason s)
                   = auditSave ent (save (u\<lparr>bannedAt := None, banReason := None\<rparr>) s))"
      using Some
      by (auto simp: unbanUser_def transactional_def Let_def logged_def logAction_def
          split: sum.splits)
    then show ?thesis using Some id by auto
  qed
qed

text \<open>
  C3. A user banned through \<open>banUser\<close> and then disabled through \<open>disableLogin\<close> comes
  out of \<open>unbanUser\<close> with \<open>bannedAt\<close> and \<open>banReason\<close> cleared and \<open>isActive\<close> still
  false (time may pass between the calls); and in no state, for no user, does
  \<open>unbanUser\<close> change \<open>isActive\<close>.
\<close>

theorem unbanUser_leaves_isActive:
  assumes "banUser userId r1 s0 = (Inr u1, s1)"
    and "disableLogin userId r2 (s1\<lparr>clock := t1\<rparr>) = (Inr u2, s2)"
  shows "bannedAt u2 \<noteq> None \<and> \<not> isActive u2
       \<and> (\<exists>s3. unbanUser userId r3 (s2\<lparr>clock := t2\<rparr>)
                  = (Inr (u2\<lparr>bannedAt := None, banReason := None\<rparr>), s3)
                \<and> findById userId s3 = Some (u2\<lparr>bannedAt := None, banReason := None\<rparr>)
                \<and> \<not> isActive (u2\<lparr>bannedAt := None, banReason := None\<rparr>))
       \<and> map_option isActive (findById j (snd (unbanUser k r s)))
           = map_option isActive (findById j s)"
proof -
  obtain u a where u: "findById userId s0 = Some u" and a: "getCurrentAdmin s0 = Inr a"
    and na: "uid a \<noteq> userId" and nl: "\<not> (role u = ADMIN \<and> adminCount s0 \<le> 1)"
    using banUser_pre [OF assms(1)] by blast
  have id: "uid u = userId" using u by (rule findById_uid)
  let ?u1 = "u\<lparr>bannedAt := Some (clock s0), banReason := Some r1, isActive := False\<rparr>"
  from banUser_ok [OF u a na nl, of r1] assms(1)
  have u1: "u1 = ?u1"
    and s1: "s1 = auditSave (newLog (uid a) ''BAN'' ''USER'' userId r1 None) (save ?u1 s0)"
    by simp_all
  have f1: "findById userId (s1\<lparr>clock := t1\<rparr>) = Some u1"
    using id by (simp add: s1 u1)
  obtain a1 where a1: "getCurrentAdmin (s1\<lparr>clock := t1\<rparr>) = Inr a1" and ia1: "uid a1 = uid a"
    using getCurrentAdmin_commit [OF u a, of ?u1] by (auto simp: s1)
  let ?u2 = "u1\<lparr>isActive := False\<rparr>"
  from disableLogin_ok [OF f1 a1, of r2] assms(2) na ia1
  have u2: "u2 = ?u2"
    and s2: "s2 = auditSave (newLog (uid a1) ''DISABLE_LOGIN'' ''USER'' userId r2 None)
                    (save ?u2 (s1\<lparr>clock := t1\<rparr>))"
    by simp_all
  have f2: "findById userId (s2\<lparr>clock := t2\<rparr>) = Some u2"
    using id by (simp add: s2 u2 u1)
  obtain a2 where a2: "getCurrentAdmin (s2\<lparr>clock := t2\<rparr>) = Inr a2"
    using getCurrentAdmin_commit [OF f1 a1, of ?u2] by (auto simp: s2)
  have id2: "uid u2 = userId" using f2 by (rule findById_uid)
  show ?thesis
    using id2 by (simp add: unbanUser_ok [OF f2 a2] unbanUser_isActive) (simp add: u2 u1)
qed

lemma mallory_state [simp]:
  "findById 42 (asAlice [alice, mallory]) = Some mallory"
  "uid mallory = 42" "role mallory = USER" "username mallory = ''mallory''"
  "username alice = ''alice''"
  by (simp_all add: findById_def asAlice_def alice_def mallory_def mkUser_def)

theorem unbanUser_leaves_isActive_witness:
  "(let out1 = banUser 42 ''spam'' (asAlice [alice, mallory]);
        out2 = disableLogin 42 ''mute'' ((snd out1)\<lparr>clock := days 1001\<rparr>);
        out3 = unbanUser 42 ''appeal'' ((snd out2)\<lparr>clock := days 1002\<rparr>)
    in fst out1 = Inr (mallory\<lparr>bannedAt := Some (days 1000), banReason := Some ''spam'',
                               isActive := False\<rparr>)
     \<and> fst out2 = Inr (mallory\<lparr>bannedAt := Some (days 1000), banReason := Some ''spam'',
                               isActive := False\<rparr>)
     \<and> fst out3 = Inr (mallory\<lparr>bannedAt := None, banReason := None, isActive := False\<rparr>))"
proof -
  let ?s0 = "asAlice [alice, mallory]"
  let ?ub = "mallory\<lparr>bannedAt := Some (days 1000), banReason := Some ''spam'', isActive := False\<rparr>"
  define out1 where "out1 = banUser 42 ''spam'' ?s0"
  define out2 where "out2 = disableLogin 42 ''mute'' ((snd out1)\<lparr>clock := days 1001\<rparr>)"
  have ck: "clock ?s0 = days 1000" by (simp add: asAlice_def)
  have o1: "out1 = (Inr ?ub, auditSave (newLog 1 ''BAN'' ''USER'' 42 ''spam'' None) (save ?ub ?s0))"
    unfolding out1_def using banUser_ok [of 42 ?s0 mallory alice "''spam''"] by (simp add: ck)
  have f1: "findById 42 ((snd out1)\<lparr>clock := days 1001\<rparr>) = Some ?ub"
    by (simp add: o1)
  have a1: "getCurrentAdmin ((snd out1)\<lparr>clock := days 1001\<rparr>) = Inr alice"
    by (simp add: o1) (simp add: getCurrentAdmin_def findByUsername_def save_def asAlice_def)
  have o2: "fst out2 = Inr ?ub"
    unfolding out2_def using disableLogin_ok [OF f1 a1, of "''mute''"] by simp
  have h1: "banUser 42 ''spam'' ?s0 = (Inr ?ub, snd out1)"
    using o1 by (simp add: out1_def)
  have h2: "disableLogin 42 ''mute'' ((snd out1)\<lparr>clock := days 1001\<rparr>) = (Inr ?ub, snd out2)"
    using o2 by (simp add: out2_def prod_eq_iff)
  from unbanUser_leaves_isActive [OF h1 h2, of "''appeal''" "days 1002" 42 42 "''appeal''" ?s0]
  have "fst (unbanUser 42 ''appeal'' ((snd out2)\<lparr>clock := days 1002\<rparr>))
          = Inr (?ub\<lparr>bannedAt := None, banReason := None\<rparr>)"
    by auto
  moreover have "fst out1 = Inr ?ub" by (simp add: o1)
  ultimately show ?thesis
    unfolding Let_def out1_def [symmetric] out2_def [symmetric] using o2 by simp
qed

section \<open>The two revisions\<close>

lemma muted_mallory_state [simp]:
  "findById 42 (asAlice [alice, mallory\<lparr>isActive := False\<rparr>]) = Some (mallory\<lparr>isActive := False\<rparr>)"
  "bannedAt mallory = None" "suspendedUntil mallory = None" "suspensionReason mallory = None"
  "banReason mallory = None"
  by (simp_all add: findById_def asAlice_def alice_def mallory_def mkUser_def)

lemma unsuspendUser_isActive:
  "map_option isActive (findById j (snd (unsuspendUser userId reason s)))
     = map_option isActive (findById j s)"
proof (cases "findById userId s")
  case None
  then show ?thesis by (simp add: unsuspendUser_def transactional_def)
next
  case (Some u)
  then have id: "uid u = userId" by (rule findById_uid)
  show ?thesis
  proof (cases "getCurrentAdmin s")
    case (Inr a)
    show ?thesis using Some id by (auto simp: unsuspendUser_ok [OF Some Inr])
  next
    case (Inl e)
    have "snd (unsuspendUser userId reason s) = s \<or>
          (\<exists>ent. snd (unsuspendUser userId reason s)
                   = auditSave ent (save (u\<lparr>suspendedUntil := None, suspensionReason := None\<rparr>) s))"
      using Some
      by (auto simp: unsuspendUser_def transactional_def Let_def logged_def logAction_def
          split: sum.splits)
    then show ?thesis using Some id by auto
  qed
qed

text \<open>
  C4. The revisions differ as functions, for \<open>unsuspendUser\<close> and for \<open>unbanUser\<close>.
  There is a state with a user that is not banned and has \<open>isActive\<close> false where the
  earlier \<open>unsuspendUser\<close> returns and stores the user with \<open>isActive\<close> true and the
  later one returns and stores it with \<open>isActive\<close> false. In general, for an existing
  target and acting admin, each of the four operations succeeds and commits exactly
  the save of the user it returns and its audit entry, so that the target is then
  found as the returned user: the earlier \<open>unsuspendUser\<close> sets \<open>isActive\<close> unless the
  user is banned and the earlier \<open>unbanUser\<close> sets it unless the user is still
  suspended, while the later operations leave \<open>isActive\<close> as it was. In no state, for
  no user, does the later \<open>unsuspendUser\<close> or \<open>unbanUser\<close> change the stored
  \<open>isActive\<close>.
\<close>

theorem revisions_disagree:
  "unsuspendUser_earlier \<noteq> unsuspendUser
   \<and> unbanUser_earlier \<noteq> unbanUser
   \<and> (\<exists>s userId reason u u1 s1 u2 s2.
         findById userId s = Some u \<and> bannedAt u = None \<and> \<not> isActive u
         \<and> unsuspendUser_earlier userId reason s = (Inr u1, s1)
         \<and> isActive u1 \<and> findById userId s1 = Some u1
         \<and> unsuspendUser userId reason s = (Inr u2, s2)
         \<and> \<not> isActive u2 \<and> findById userId s2 = Some u2)
   \<and> (\<forall>s userId reason u a.
         findById userId s = Some u \<and> getCurrentAdmin s = Inr a \<longrightarrow>
           unsuspendUser_earlier userId reason s
             = (Inr (u\<lparr>suspendedUntil := None, suspensionReason := None,
                       isActive := (if bannedAt u = None then True else isActive u)\<rparr>),
                auditSave (newLog (uid a) ''UNSUSPEND'' ''USER'' userId reason None)
                  (save (u\<lparr>suspendedUntil := None, suspensionReason := None,
                           isActive := (if bannedAt u = None then True else isActive u)\<rparr>) s))
         \<and> findById userId (snd (unsuspendUser_earlier userId reason s))
             = Some (u\<lparr>suspendedUntil := None, suspensionReason := None,
                       isActive := (if bannedAt u = None then True else isActive u)\<rparr>)
         \<and> unsuspendUser userId reason s
             = (Inr (u\<lparr>suspendedUntil := None, suspensionReason := None\<rparr>),
                auditSave (newLog (uid a) ''UNSUSPEND'' ''USER'' userId reason None)
                  (save (u\<lparr>suspendedUntil := None, suspensionReason := None\<rparr>) s))
         \<and> findById userId (snd (unsuspendUser userId reason s))
             = Some (u\<lparr>suspendedUntil := None, suspensionReason := None\<rparr>)
         \<and> unbanUser_earlier userId reason s
             = (Inr (u\<lparr>bannedAt := None, banReason := None,
                       isActive := (if \<not> isSuspended (clock s) u then True else isActive u)\<rparr>),
                auditSave (newLog (uid a) ''UNBAN'' ''USER'' userId reason None)
                  (save (u\<lparr>bannedAt := None, banReason := None,
                           isActive := (if \<not> isSuspended (clock s) u then True
                                        else isActive u)\<rparr>) s))
         \<and> findById userId (snd (unbanUser_earlier userId reason s))
             = Some (u\<lparr>bannedAt := None, banReason := None,
                       isActive := (if \<not> isSuspended (clock s) u then True else isActive u)\<rparr>)
         \<and> unbanUser userId reason s
             = (Inr (u\<lparr>bannedAt := None, banReason := None\<rparr>),
                auditSave (newLog (uid a) ''UNBAN'' ''USER'' userId reason None)
                  (save (u\<lparr>bannedAt := None, banReason := None\<rparr>) s))
         \<and> findById userId (snd (unbanUser userId reason s))
             = Some (u\<lparr>bannedAt := None, banReason := None\<rparr>))
   \<and> (\<forall>s userId reason j.
         map_option isActive (findById j (snd (unsuspendUser userId reason s)))
           = map_option isActive (findById j s)
         \<and> map_option isActive (findById j (snd (unbanUser userId reason s)))
           = map_option isActive (findById j s))"
proof -
  let ?s = "asAlice [alice, mallory\<lparr>isActive := False\<rparr>]"
  let ?m = "mallory\<lparr>isActive := False\<rparr>"
  have f: "findById 42 ?s = Some ?m" by simp
  have a: "getCurrentAdmin ?s = Inr alice" by simp
  have m: "?m\<lparr>suspendedUntil := None, suspensionReason := None, isActive := True\<rparr> = mallory"
    "?m\<lparr>bannedAt := None, banReason := None, isActive := True\<rparr> = mallory"
    "?m\<lparr>suspendedUntil := None, suspensionReason := None\<rparr> = ?m"
    "?m\<lparr>bannedAt := None, banReason := None\<rparr> = ?m"
    "mallory\<lparr>isActive := True\<rparr> = mallory"
    by (simp_all add: mallory_def mkUser_def)
  have act: "isActive mallory" "uid mallory = 42" by (simp_all add: mallory_def mkUser_def)
  have e: "unsuspendUser_earlier 42 ''ok'' ?s
             = (Inr mallory, auditSave (newLog 1 ''UNSUSPEND'' ''USER'' 42 ''ok'' None) (save mallory ?s))"
    by (simp add: unsuspendUser_earlier_ok [OF f a] m)
  have l: "unsuspendUser 42 ''ok'' ?s
             = (Inr ?m, auditSave (newLog 1 ''UNSUSPEND'' ''USER'' 42 ''ok'' None) (save ?m ?s))"
    by (simp add: unsuspendUser_ok [OF f a] m)
  have eb: "fst (unbanUser_earlier 42 ''ok'' ?s) = Inr mallory"
    by (simp add: unbanUser_earlier_ok [OF f a] isSuspended_def m)
  have lb: "fst (unbanUser 42 ''ok'' ?s) = Inr ?m"
    by (simp add: unbanUser_ok [OF f a] m)
  have ne: "mallory \<noteq> ?m"
  proof
    assume "mallory = ?m"
    then have "isActive mallory = isActive ?m" by (rule arg_cong)
    with act show False by simp
  qed
  have 1: "unsuspendUser_earlier \<noteq> unsuspendUser"
  proof
    assume "unsuspendUser_earlier = unsuspendUser"
    then have "fst (unsuspendUser_earlier 42 ''ok'' ?s) = fst (unsuspendUser 42 ''ok'' ?s)"
      by simp
    with e l ne show False by simp
  qed
  have 2: "unbanUser_earlier \<noteq> unbanUser"
  proof
    assume "unbanUser_earlier = unbanUser"
    then have "fst (unbanUser_earlier 42 ''ok'' ?s) = fst (unbanUser 42 ''ok'' ?s)"
      by simp
    with eb lb ne show False by simp
  qed
  have 3: "\<exists>s userId reason u u1 s1 u2 s2.
         findById userId s = Some u \<and> bannedAt u = None \<and> \<not> isActive u
         \<and> unsuspendUser_earlier userId reason s = (Inr u1, s1)
         \<and> isActive u1 \<and> findById userId s1 = Some u1
         \<and> unsuspendUser userId reason s = (Inr u2, s2)
         \<and> \<not> isActive u2 \<and> findById userId s2 = Some u2"
    using f e l act
    by (intro exI [of _ ?s] exI [of _ 42] exI [of _ "''ok''"] exI [of _ ?m] exI [of _ mallory]
        exI [of _ "auditSave (newLog 1 ''UNSUSPEND'' ''USER'' 42 ''ok'' None) (save mallory ?s)"]
        exI [of _ "auditSave (newLog 1 ''UNSUSPEND'' ''USER'' 42 ''ok'' None) (save ?m ?s)"])
      simp
  have 4: "unsuspendUser_earlier userId reason s
             = (Inr (u\<lparr>suspendedUntil := None, suspensionReason := None,
                       isActive := (if bannedAt u = None then True else isActive u)\<rparr>),
                auditSave (newLog (uid a) ''UNSUSPEND'' ''USER'' userId reason None)
                  (save (u\<lparr>suspendedUntil := None, suspensionReason := None,
                           isActive := (if bannedAt u = None then True else isActive u)\<rparr>) s))
         \<and> findById userId (snd (unsuspendUser_earlier userId reason s))
             = Some (u\<lparr>suspendedUntil := None, suspensionReason := None,
                       isActive := (if bannedAt u = None then True else isActive u)\<rparr>)
         \<and> unsuspendUser userId reason s
             = (Inr (u\<lparr>suspendedUntil := None, suspensionReason := None\<rparr>),
                auditSave (newLog (uid a) ''UNSUSPEND'' ''USER'' userId reason None)
                  (save (u\<lparr>suspendedUntil := None, suspensionReason := None\<rparr>) s))
         \<and> findById userId (snd (unsuspendUser userId reason s))
             = Some (u\<lparr>suspendedUntil := None, suspensionReason := None\<rparr>)
         \<and> unbanUser_earlier userId reason s
             = (Inr (u\<lparr>bannedAt := None, banReason := None,
                       isActive := (if \<not> isSuspended (clock s) u then True else isActive u)\<rparr>),
                auditSave (newLog (uid a) ''UNBAN'' ''USER'' userId reason None)
                  (save (u\<lparr>bannedAt := None, banReason := None,
                           isActive := (if \<not> isSuspended (clock s) u then True
                                        else isActive u)\<rparr>) s))
         \<and> findById userId (snd (unbanUser_earlier userId reason s))
             = Some (u\<lparr>bannedAt := None, banReason := None,
                       isActive := (if \<not> isSuspended (clock s) u then True else isActive u)\<rparr>)
         \<and> unbanUser userId reason s
             = (Inr (u\<lparr>bannedAt := None, banReason := None\<rparr>),
                auditSave (newLog (uid a) ''UNBAN'' ''USER'' userId reason None)
                  (save (u\<lparr>bannedAt := None, banReason := None\<rparr>) s))
         \<and> findById userId (snd (unbanUser userId reason s))
             = Some (u\<lparr>bannedAt := None, banReason := None\<rparr>)"
    if h: "findById userId s = Some u" "getCurrentAdmin s = Inr a" for s userId reason u a
  proof -
    have "uid u = userId" using h(1) by (rule findById_uid)
    then show ?thesis
      by (simp add: unsuspendUser_earlier_ok [OF h] unsuspendUser_ok [OF h]
          unbanUser_earlier_ok [OF h] unbanUser_ok [OF h])
  qed
  have 5: "map_option isActive (findById j (snd (unsuspendUser userId reason s)))
           = map_option isActive (findById j s)
         \<and> map_option isActive (findById j (snd (unbanUser userId reason s)))
           = map_option isActive (findById j s)" for s userId reason j
    by (simp add: unsuspendUser_isActive unbanUser_isActive)
  from 1 2 3 4 5 show ?thesis by blast
qed

theorem revisions_disagree_witness:
  "findById 42 (asAlice [alice, mallory\<lparr>isActive := False\<rparr>]) = Some (mallory\<lparr>isActive := False\<rparr>)
   \<and> getCurrentAdmin (asAlice [alice, mallory\<lparr>isActive := False\<rparr>]) = Inr alice
   \<and> fst (unsuspendUser_earlier 42 ''ok'' (asAlice [alice, mallory\<lparr>isActive := False\<rparr>]))
       = Inr (mallory\<lparr>isActive := True\<rparr>)
   \<and> findById 42 (snd (unsuspendUser_earlier 42 ''ok'' (asAlice [alice, mallory\<lparr>isActive := False\<rparr>])))
       = Some (mallory\<lparr>isActive := True\<rparr>)
   \<and> fst (unsuspendUser 42 ''ok'' (asAlice [alice, mallory\<lparr>isActive := False\<rparr>]))
       = Inr (mallory\<lparr>isActive := False\<rparr>)
   \<and> findById 42 (snd (unsuspendUser 42 ''ok'' (asAlice [alice, mallory\<lparr>isActive := False\<rparr>])))
       = Some (mallory\<lparr>isActive := False\<rparr>)
   \<and> fst (unbanUser_earlier 42 ''ok'' (asAlice [alice, mallory\<lparr>isActive := False\<rparr>]))
       = Inr (mallory\<lparr>isActive := True\<rparr>)
   \<and> findById 42 (snd (unbanUser_earlier 42 ''ok'' (asAlice [alice, mallory\<lparr>isActive := False\<rparr>])))
       = Some (mallory\<lparr>isActive := True\<rparr>)
   \<and> fst (unbanUser 42 ''ok'' (asAlice [alice, mallory\<lparr>isActive := False\<rparr>]))
       = Inr (mallory\<lparr>isActive := False\<rparr>)
   \<and> findById 42 (snd (unbanUser 42 ''ok'' (asAlice [alice, mallory\<lparr>isActive := False\<rparr>])))
       = Some (mallory\<lparr>isActive := False\<rparr>)"
proof -
  let ?s = "asAlice [alice, mallory\<lparr>isActive := False\<rparr>]"
  let ?m = "mallory\<lparr>isActive := False\<rparr>"
  have f: "findById 42 ?s = Some ?m" by simp
  have a: "getCurrentAdmin ?s = Inr alice" by simp
  have ns: "\<not> isSuspended (clock ?s) ?m" by (simp add: isSuspended_def)
  note inst = revisions_disagree [THEN conjunct2, THEN conjunct2, THEN conjunct2, THEN conjunct1,
      rule_format, of 42 ?s ?m alice "''ok''", OF conjI [OF f a]]
  have 1: "fst (unsuspendUser_earlier 42 ''ok'' ?s) = Inr (mallory\<lparr>isActive := True\<rparr>)"
    using inst [THEN conjunct1] by simp
  have 2: "findById 42 (snd (unsuspendUser_earlier 42 ''ok'' ?s)) = Some (mallory\<lparr>isActive := True\<rparr>)"
    using inst [THEN conjunct2, THEN conjunct1] by simp
  have 3: "fst (unsuspendUser 42 ''ok'' ?s) = Inr ?m"
    using inst [THEN conjunct2, THEN conjunct2, THEN conjunct1] by simp
  have 4: "findById 42 (snd (unsuspendUser 42 ''ok'' ?s)) = Some ?m"
    using inst [THEN conjunct2, THEN conjunct2, THEN conjunct2, THEN conjunct1] by simp
  note rest = inst [THEN conjunct2, THEN conjunct2, THEN conjunct2, THEN conjunct2]
  have 5: "fst (unbanUser_earlier 42 ''ok'' ?s) = Inr (mallory\<lparr>isActive := True\<rparr>)"
    using rest [THEN conjunct1] ns by simp
  have 6: "findById 42 (snd (unbanUser_earlier 42 ''ok'' ?s)) = Some (mallory\<lparr>isActive := True\<rparr>)"
    using rest [THEN conjunct2, THEN conjunct1] ns by simp
  have 7: "fst (unbanUser 42 ''ok'' ?s) = Inr ?m"
    using rest [THEN conjunct2, THEN conjunct2, THEN conjunct1] by simp
  have 8: "findById 42 (snd (unbanUser 42 ''ok'' ?s)) = Some ?m"
    using rest [THEN conjunct2, THEN conjunct2, THEN conjunct2] by simp
  from f a 1 2 3 4 5 6 7 8 show ?thesis by simp
qed

section \<open>Enabling login\<close>

text \<open>
  C8. For an existing user and acting admin, \<open>enableLogin\<close> fails with the still-banned
  error when \<open>bannedAt\<close> is set; otherwise fails with the still-suspended error when
  \<open>suspendedUntil\<close> is set and later than the clock; otherwise returns and stores the
  user with \<open>isActive\<close> true. The failures leave the state as it was. In particular,
  after \<open>suspendUser\<close> until seven days from now on a user that is not banned,
  \<open>enableLogin\<close> at any time before that deadline fails with the still-suspended error
  and the stored user keeps the \<open>isActive\<close> it had.
\<close>

theorem enableLogin_guards:
  assumes "findById userId s = Some u" and "getCurrentAdmin s = Inr a"
  shows "(bannedAt u \<noteq> None \<longrightarrow> enableLogin userId reason s = (Inl StillBanned, s))
       \<and> (bannedAt u = None \<and> (\<exists>t. suspendedUntil u = Some t \<and> clock s < t)
            \<longrightarrow> enableLogin userId reason s = (Inl StillSuspended, s))
       \<and> (bannedAt u = None \<and> \<not> (\<exists>t. suspendedUntil u = Some t \<and> clock s < t)
            \<longrightarrow> (\<exists>s'. enableLogin userId reason s = (Inr (u\<lparr>isActive := True\<rparr>), s')
                     \<and> findById userId s' = Some (u\<lparr>isActive := True\<rparr>)))
       \<and> (uid a \<noteq> userId \<and> bannedAt u = None
            \<longrightarrow> (\<forall>u1 s1 t. suspendUser userId (clock s + days 7) reason' s = (Inr u1, s1)
                           \<and> t < clock s + days 7
                  \<longrightarrow> enableLogin userId reason (s1\<lparr>clock := t\<rparr>)
                        = (Inl StillSuspended, s1\<lparr>clock := t\<rparr>)
                      \<and> map_option isActive (findById userId (s1\<lparr>clock := t\<rparr>))
                        = Some (isActive u)))"
proof -
  have id: "uid u = userId" using assms(1) by (rule findById_uid)
  have 1: "enableLogin userId reason s = (Inl StillBanned, s)" if "bannedAt u \<noteq> None"
    using assms that by (simp add: enableLogin_def transactional_def isBanned_def)
  have 2: "enableLogin userId reason s = (Inl StillSuspended, s)"
    if "bannedAt u = None" "\<exists>t. suspendedUntil u = Some t \<and> clock s < t"
    using assms that by (auto simp: enableLogin_def transactional_def isBanned_def isSuspended_def)
  have 3: "\<exists>s'. enableLogin userId reason s = (Inr (u\<lparr>isActive := True\<rparr>), s')
                     \<and> findById userId s' = Some (u\<lparr>isActive := True\<rparr>)"
    if "bannedAt u = None" "\<not> (\<exists>t. suspendedUntil u = Some t \<and> clock s < t)"
  proof -
    from that(2) have "\<not> isSuspended (clock s) u"
      by (simp add: isSuspended_def split: option.splits)
    from enableLogin_ok [OF assms that(1) this] id show ?thesis by simp
  qed
  have 4: "enableLogin userId reason (s1\<lparr>clock := t\<rparr>) = (Inl StillSuspended, s1\<lparr>clock := t\<rparr>)
           \<and> map_option isActive (findById userId (s1\<lparr>clock := t\<rparr>)) = Some (isActive u)"
    if "uid a \<noteq> userId" "bannedAt u = None"
      "suspendUser userId (clock s + days 7) reason' s = (Inr u1, s1)" "t < clock s + days 7"
    for u1 s1 t
  proof -
    let ?u1 = "u\<lparr>suspendedUntil := Some (clock s + days 7), suspensionReason := Some reason'\<rparr>"
    from suspendUser_ok [OF assms that(1), of "clock s + days 7" reason'] that(3)
    have s1: "s1 = auditSave (newLog (uid a) ''SUSPEND'' ''USER'' userId reason'
                     (Some [(''suspendedUntil'', Time (clock s + days 7))])) (save ?u1 s)"
      by simp
    have f: "findById userId s1 = Some ?u1"
      using id by (simp add: s1)
    show ?thesis
      using that(2,4)
      by (simp add: f enableLogin_def transactional_def isBanned_def isSuspended_def)
  qed
  from 1 2 3 4 show ?thesis by blast
qed

theorem enableLogin_guards_witness:
  "findById 3 (asAlice [alice, carol]) = Some carol
   \<and> getCurrentAdmin (asAlice [alice, carol]) = Inr alice
   \<and> bannedAt carol \<noteq> None
   \<and> enableLogin 3 ''reinstate'' (asAlice [alice, carol]) = (Inl StillBanned, asAlice [alice, carol])
   \<and> findById 42 (asAlice [alice, mallory\<lparr>suspendedUntil := Some (days 1007)\<rparr>])
       = Some (mallory\<lparr>suspendedUntil := Some (days 1007)\<rparr>)
   \<and> clock (asAlice [alice, mallory\<lparr>suspendedUntil := Some (days 1007)\<rparr>]) < days 1007
   \<and> enableLogin 42 ''reinstate'' (asAlice [alice, mallory\<lparr>suspendedUntil := Some (days 1007)\<rparr>])
       = (Inl StillSuspended, asAlice [alice, mallory\<lparr>suspendedUntil := Some (days 1007)\<rparr>])
   \<and> findById 42 (asAlice [alice, mallory]) = Some mallory
   \<and> getCurrentAdmin (asAlice [alice, mallory]) = Inr alice
   \<and> uid alice \<noteq> 42 \<and> bannedAt mallory = None \<and> suspendedUntil mallory = None
   \<and> fst (enableLogin 42 ''reinstate'' (asAlice [alice, mallory])) = Inr (mallory\<lparr>isActive := True\<rparr>)
   \<and> fst (suspendUser 42 (days 1007) ''spam'' (asAlice [alice, mallory]))
       = Inr (mallory\<lparr>suspendedUntil := Some (days 1007), suspensionReason := Some ''spam''\<rparr>)
   \<and> enableLogin 42 ''reinstate''
         ((snd (suspendUser 42 (days 1007) ''spam'' (asAlice [alice, mallory])))\<lparr>clock := days 1000\<rparr>)
       = (Inl StillSuspended,
          (snd (suspendUser 42 (days 1007) ''spam'' (asAlice [alice, mallory])))\<lparr>clock := days 1000\<rparr>)"
proof -
  let ?s = "asAlice [alice, mallory]"
  have c: "bannedAt carol \<noteq> None" by (simp add: carol_def)
  have ck: "clock ?s + days 7 = days 1007" by (simp add: asAlice_def days_def)
  have na: "uid alice \<noteq> 42" by simp
  have su: "suspendUser 42 (days 1007) ''spam'' ?s
      = (Inr (mallory\<lparr>suspendedUntil := Some (days 1007), suspensionReason := Some ''spam''\<rparr>),
         snd (suspendUser 42 (days 1007) ''spam'' ?s))"
    using suspendUser_ok [of 42 ?s mallory alice "days 1007" "''spam''"] by simp
  have suf: "fst (suspendUser 42 (days 1007) ''spam'' ?s)
      = Inr (mallory\<lparr>suspendedUntil := Some (days 1007), suspensionReason := Some ''spam''\<rparr>)"
    using suspendUser_ok [of 42 ?s mallory alice "days 1007" "''spam''"] by simp
  have lt: "days 1000 < clock ?s + days 7" by (simp add: asAlice_def days_def)
  from enableLogin_guards [of 3 "asAlice [alice, carol]" carol alice "''reinstate''"] c
  have 1: "enableLogin 3 ''reinstate'' (asAlice [alice, carol]) = (Inl StillBanned, asAlice [alice, carol])"
    by simp
  from enableLogin_guards [of 42 ?s mallory alice "''reinstate''" "''spam''"]
  have 2: "fst (enableLogin 42 ''reinstate'' ?s) = Inr (mallory\<lparr>isActive := True\<rparr>)"
    and 3: "\<forall>u1 s1 t. suspendUser 42 (clock ?s + days 7) ''spam'' ?s = (Inr u1, s1)
                     \<and> t < clock ?s + days 7
            \<longrightarrow> enableLogin 42 ''reinstate'' (s1\<lparr>clock := t\<rparr>)
                  = (Inl StillSuspended, s1\<lparr>clock := t\<rparr>)
                \<and> map_option isActive (findById 42 (s1\<lparr>clock := t\<rparr>)) = Some (isActive mallory)"
    by auto
  from 3 [rule_format, of _ "snd (suspendUser 42 (days 1007) ''spam'' ?s)" "days 1000"] su lt
  have 4: "enableLogin 42 ''reinstate''
         ((snd (suspendUser 42 (days 1007) ''spam'' ?s))\<lparr>clock := days 1000\<rparr>)
       = (Inl StillSuspended, (snd (suspendUser 42 (days 1007) ''spam'' ?s))\<lparr>clock := days 1000\<rparr>)"
    by (simp add: ck)
  let ?m = "mallory\<lparr>suspendedUntil := Some (days 1007)\<rparr>"
  have f5: "findById 42 (asAlice [alice, ?m]) = Some ?m"
    by (simp add: findById_def asAlice_def alice_def mallory_def mkUser_def)
  have c5: "clock (asAlice [alice, ?m]) < days 1007" by (simp add: asAlice_def days_def)
  from enableLogin_guards [of 42 "asAlice [alice, ?m]" ?m alice "''reinstate''"] f5 c5
  have 5: "enableLogin 42 ''reinstate'' (asAlice [alice, ?m]) = (Inl StillSuspended, asAlice [alice, ?m])"
    by simp
  from 1 2 4 5 c suf f5 c5 show ?thesis by simp
qed

section \<open>Restoring a soft-deleted user\<close>

lemma isSuspended_iff: "isSuspended now u \<longleftrightarrow> (\<exists>t. suspendedUntil u = Some t \<and> now < t)"
  by (simp add: isSuspended_def split: option.splits)

text \<open>
  C9. For an existing user and acting admin, \<open>restoreUser\<close> fails with the invalid-state
  error and changes nothing when \<open>isDeleted\<close> is false. When \<open>isDeleted\<close> is true it
  returns and stores the user with \<open>isDeleted\<close> false, \<open>deletedAt\<close> cleared, and
  \<open>isActive\<close> true if the user is neither banned nor suspended at the time of the call
  and as it was otherwise; restoring again, at any later time, then fails with the
  invalid-state error.
\<close>

theorem restoreUser_spec:
  assumes "findById userId s = Some u" and "getCurrentAdmin s = Inr a"
  shows "(\<not> isDeleted u \<longrightarrow> restoreUser userId reason s = (Inl InvalidState_NotDeleted, s))
       \<and> (isDeleted u \<longrightarrow>
            (\<exists>s'. restoreUser userId reason s
                     = (Inr (u\<lparr>isDeleted := False, deletedAt := None,
                              isActive := (if bannedAt u = None
                                              \<and> \<not> (\<exists>t. suspendedUntil u = Some t \<and> clock s < t)
                                           then True else isActive u)\<rparr>), s')
                 \<and> findById userId s'
                     = Some (u\<lparr>isDeleted := False, deletedAt := None,
                              isActive := (if bannedAt u = None
                                              \<and> \<not> (\<exists>t. suspendedUntil u = Some t \<and> clock s < t)
                                           then True else isActive u)\<rparr>)
                 \<and> (\<forall>t reason'. restoreUser userId reason' (s'\<lparr>clock := t\<rparr>)
                                   = (Inl InvalidState_NotDeleted, s'\<lparr>clock := t\<rparr>))))"
proof -
  have id: "uid u = userId" using assms(1) by (rule findById_uid)
  have 1: "restoreUser userId reason s = (Inl InvalidState_NotDeleted, s)" if "\<not> isDeleted u"
    using assms that by (simp add: restoreUser_def transactional_def)
  have 2: "\<exists>s'. restoreUser userId reason s
                     = (Inr (u\<lparr>isDeleted := False, deletedAt := None,
                              isActive := (if bannedAt u = None
                                              \<and> \<not> (\<exists>t. suspendedUntil u = Some t \<and> clock s < t)
                                           then True else isActive u)\<rparr>), s')
                 \<and> findById userId s'
                     = Some (u\<lparr>isDeleted := False, deletedAt := None,
                              isActive := (if bannedAt u = None
                                              \<and> \<not> (\<exists>t. suspendedUntil u = Some t \<and> clock s < t)
                                           then True else isActive u)\<rparr>)
                 \<and> (\<forall>t reason'. restoreUser userId reason' (s'\<lparr>clock := t\<rparr>)
                                   = (Inl InvalidState_NotDeleted, s'\<lparr>clock := t\<rparr>))"
    if "isDeleted u"
    using id by (simp add: restoreUser_ok [OF assms that] isSuspended_iff)
      (simp add: restoreUser_def transactional_def)
  from 1 2 show ?thesis by blast
qed

lemma deleted_mallory_state [simp]:
  "findById 42 (asAlice [alice, mallory\<lparr>isDeleted := True, deletedAt := Some d, isActive := False\<rparr>])
     = Some (mallory\<lparr>isDeleted := True, deletedAt := Some d, isActive := False\<rparr>)"
  "isDeleted mallory = False" "isActive mallory = True" "deletedAt mallory = None"
  by (simp_all add: findById_def asAlice_def alice_def mallory_def mkUser_def)

theorem restoreUser_spec_witness:
  "findById 42 (asAlice [alice, mallory]) = Some mallory
   \<and> getCurrentAdmin (asAlice [alice, mallory]) = Inr alice
   \<and> \<not> isDeleted mallory
   \<and> restoreUser 42 ''appeal'' (asAlice [alice, mallory])
       = (Inl InvalidState_NotDeleted, asAlice [alice, mallory])
   \<and> fst (restoreUser 42 ''appeal''
         (asAlice [alice, mallory\<lparr>isDeleted := True, deletedAt := Some (days 990), isActive := False\<rparr>]))
       = Inr mallory
   \<and> fst (restoreUser 42 ''again''
         (snd (restoreUser 42 ''appeal''
           (asAlice [alice, mallory\<lparr>isDeleted := True, deletedAt := Some (days 990), isActive := False\<rparr>]))))
       = Inl InvalidState_NotDeleted"
proof -
  let ?d = "mallory\<lparr>isDeleted := True, deletedAt := Some (days 990), isActive := False\<rparr>"
  let ?s = "asAlice [alice, ?d]"
  from restoreUser_spec [of 42 "asAlice [alice, mallory]" mallory alice "''appeal''"]
  have 1: "restoreUser 42 ''appeal'' (asAlice [alice, mallory])
             = (Inl InvalidState_NotDeleted, asAlice [alice, mallory])"
    by simp
  have orig: "?d\<lparr>isDeleted := False, deletedAt := None, isActive := True\<rparr> = mallory"
    by (simp add: mallory_def mkUser_def)
  from restoreUser_spec [of 42 ?s ?d alice "''appeal''"]
  obtain s' where r: "restoreUser 42 ''appeal'' ?s
                        = (Inr (?d\<lparr>isDeleted := False, deletedAt := None, isActive := True\<rparr>), s')"
    and again: "\<forall>t reason'. restoreUser 42 reason' (s'\<lparr>clock := t\<rparr>)
                  = (Inl InvalidState_NotDeleted, s'\<lparr>clock := t\<rparr>)"
    by auto
  from again [rule_format, of "''again''" "clock s'"]
  have 2: "fst (restoreUser 42 ''again'' s') = Inl InvalidState_NotDeleted" by simp
  from 1 r 2 orig show ?thesis by simp
qed

section \<open>Permanent deletion\<close>

lemma permanentDeleteUser_ok:
  assumes "findById userId s = Some u" and "getCurrentAdmin s = Inr a" and "uid a \<noteq> userId"
    and "\<not> (role u = ADMIN \<and> adminCount s \<le> 1)" and "isDeleted u"
    and "\<not> (\<exists>d. deletedAt u = Some d \<and> clock s - days 30 < d)"
  shows "permanentDeleteUser userId reason s =
    (Inr (), delete u (auditSave (newLog (uid a) ''PERMANENT_DELETE'' ''USER'' userId reason None) s))"
  using assms
  by (auto simp: permanentDeleteUser_def transactional_def checkSelfModification_def
      checkLastAdmin_def logAction_def Let_def split: option.splits)

lemma softDeleteUser_pre:
  assumes "softDeleteUser userId reason s = (Inr u1, s1)"
  shows "\<exists>u a. findById userId s = Some u \<and> getCurrentAdmin s = Inr a \<and> uid a \<noteq> userId
               \<and> \<not> (role u = ADMIN \<and> adminCount s \<le> 1)"
  using assms
  by (auto simp: softDeleteUser_def transactional_def checkSelfModification_def checkLastAdmin_def
      split: sum.splits option.splits if_splits)

text \<open>
  C5. For an existing target, an acting admin other than the target, and a target that
  the last-admin check lets through: with \<open>isDeleted\<close> true and \<open>deletedAt\<close> later than
  thirty days before now, \<open>permanentDeleteUser\<close> fails with the too-soon error and
  leaves the state as it was; with \<open>isDeleted\<close> true and \<open>deletedAt\<close> at or before
  thirty days before now it succeeds, the target can no longer be found and every
  other user is found as before; with \<open>isDeleted\<close> false it fails with the
  invalid-state error.
\<close>

theorem permanentDeleteUser_grace_period:
  assumes "findById userId s = Some u" and "getCurrentAdmin s = Inr a" and "uid a \<noteq> userId"
    and "\<not> (role u = ADMIN \<and> adminCount s \<le> 1)"
  shows "(isDeleted u \<and> (\<exists>d. deletedAt u = Some d \<and> clock s - days 30 < d)
            \<longrightarrow> permanentDeleteUser userId reason s = (Inl TooSoon, s))
       \<and> (isDeleted u \<and> (\<exists>d. deletedAt u = Some d \<and> d \<le> clock s - days 30)
            \<longrightarrow> (\<exists>s'. permanentDeleteUser userId reason s = (Inr (), s')
                     \<and> findById userId s' = None
                     \<and> (\<forall>j. j \<noteq> userId \<longrightarrow> findById j s' = findById j s)))
       \<and> (\<not> isDeleted u
            \<longrightarrow> permanentDeleteUser userId reason s = (Inl InvalidState_NotSoftDeleted, s))"
proof -
  have id: "uid u = userId" using assms(1) by (rule findById_uid)
  have 1: "permanentDeleteUser userId reason s = (Inl TooSoon, s)"
    if "isDeleted u" "\<exists>d. deletedAt u = Some d \<and> clock s - days 30 < d"
    using assms that
    by (auto simp: permanentDeleteUser_def transactional_def checkSelfModification_def
        checkLastAdmin_def Let_def)
  have 2: "\<exists>s'. permanentDeleteUser userId reason s = (Inr (), s')
                     \<and> findById userId s' = None
                     \<and> (\<forall>j. j \<noteq> userId \<longrightarrow> findById j s' = findById j s)"
    if "isDeleted u" "\<exists>d. deletedAt u = Some d \<and> d \<le> clock s - days 30"
  proof -
    from that(2) have "\<not> (\<exists>d. deletedAt u = Some d \<and> clock s - days 30 < d)" by auto
    from permanentDeleteUser_ok [OF assms that(1) this] id show ?thesis by simp
  qed
  have 3: "permanentDeleteUser userId reason s = (Inl InvalidState_NotSoftDeleted, s)"
    if "\<not> isDeleted u"
    using assms that
    by (auto simp: permanentDeleteUser_def transactional_def checkSelfModification_def
        checkLastAdmin_def)
  from 1 2 3 show ?thesis by blast
qed

lemma clock_asAlice: "clock (asAlice us) = days 1000"
  by (simp add: asAlice_def)

lemma adminCount_one_admin [simp]: "adminCount (asAlice [alice, mkUser i n USER\<lparr>isDeleted := b, deletedAt := d, isActive := c\<rparr>]) = 1"
  by (simp add: adminCount_def findAll_def asAlice_def alice_def mkUser_def)

theorem permanentDeleteUser_grace_period_witness:
  "clock (asAlice [alice, mallory\<lparr>isDeleted := True, deletedAt := Some (days 1000 - days 29), isActive := False\<rparr>])
       - days 30 < days 1000 - days 29
   \<and> permanentDeleteUser 42 ''purge''
        (asAlice [alice, mallory\<lparr>isDeleted := True, deletedAt := Some (days 1000 - days 29), isActive := False\<rparr>])
       = (Inl TooSoon,
          asAlice [alice, mallory\<lparr>isDeleted := True, deletedAt := Some (days 1000 - days 29), isActive := False\<rparr>])
   \<and> days 1000 - days 31
       \<le> clock (asAlice [alice, mallory\<lparr>isDeleted := True, deletedAt := Some (days 1000 - days 31), isActive := False\<rparr>])
           - days 30
   \<and> fst (permanentDeleteUser 42 ''purge''
        (asAlice [alice, mallory\<lparr>isDeleted := True, deletedAt := Some (days 1000 - days 31), isActive := False\<rparr>]))
       = Inr ()
   \<and> findById 42 (snd (permanentDeleteUser 42 ''purge''
        (asAlice [alice, mallory\<lparr>isDeleted := True, deletedAt := Some (days 1000 - days 31), isActive := False\<rparr>])))
       = None
   \<and> permanentDeleteUser 42 ''purge'' (asAlice [alice, mallory])
       = (Inl InvalidState_NotSoftDeleted, asAlice [alice, mallory])"
proof -
  let ?d29 = "mallory\<lparr>isDeleted := True, deletedAt := Some (days 1000 - days 29), isActive := False\<rparr>"
  let ?d31 = "mallory\<lparr>isDeleted := True, deletedAt := Some (days 1000 - days 31), isActive := False\<rparr>"
  have ck: "clock (asAlice us) = days 1000" for us by (simp add: asAlice_def)
  have lt: "days 1000 - days 30 < days 1000 - days 29" "days 1000 - days 31 \<le> days 1000 - days 30"
    by (simp_all add: days_def)
  have cnt: "adminCount (asAlice [alice, mallory]) = 1"
    by (simp add: adminCount_def findAll_def asAlice_def alice_def mallory_def mkUser_def)
  have cnt': "adminCount (asAlice [alice, mallory\<lparr>isDeleted := b, deletedAt := d, isActive := c\<rparr>]) = 1" for b d c
    by (simp add: mallory_def)
  from permanentDeleteUser_grace_period [of 42 "asAlice [alice, ?d29]" ?d29 alice "''purge''"] lt
  have 1: "permanentDeleteUser 42 ''purge'' (asAlice [alice, ?d29]) = (Inl TooSoon, asAlice [alice, ?d29])"
    by (simp add: ck)
  from permanentDeleteUser_grace_period [of 42 "asAlice [alice, ?d31]" ?d31 alice "''purge''"] lt
  have 2: "fst (permanentDeleteUser 42 ''purge'' (asAlice [alice, ?d31])) = Inr ()
         \<and> findById 42 (snd (permanentDeleteUser 42 ''purge'' (asAlice [alice, ?d31]))) = None"
    by (auto simp: ck)
  from permanentDeleteUser_grace_period [of 42 "asAlice [alice, mallory]" mallory alice "''purge''"]
  have 3: "permanentDeleteUser 42 ''purge'' (asAlice [alice, mallory])
       = (Inl InvalidState_NotSoftDeleted, asAlice [alice, mallory])"
    by simp
  from 1 2 3 lt show ?thesis by (simp add: ck)
qed

text \<open>
  C10. A target with \<open>isDeleted\<close> true and no \<open>deletedAt\<close>, deleted by an acting admin
  other than the target and let through by the last-admin check, is removed by
  \<open>permanentDeleteUser\<close> whatever the clock says: the grace period is not checked.
  \<open>softDeleteUser\<close> never leaves such a record: on success the stored user has
  \<open>deletedAt\<close> set to the time of the call.
\<close>

theorem permanentDeleteUser_without_deletedAt:
  assumes "findById userId s = Some u" and "isDeleted u" and "deletedAt u = None"
    and "getCurrentAdmin s = Inr a" and "uid a \<noteq> userId"
    and "\<not> (role u = ADMIN \<and> adminCount s \<le> 1)"
  shows "(\<exists>s'. permanentDeleteUser userId reason (s\<lparr>clock := t\<rparr>) = (Inr (), s')
              \<and> findById userId s' = None)
       \<and> (\<forall>r0 s0 u1 s1. softDeleteUser userId r0 s0 = (Inr u1, s1)
              \<longrightarrow> isDeleted u1 \<and> deletedAt u1 = Some (clock s0) \<and> findById userId s1 = Some u1)"
proof -
  have id: "uid u = userId" using assms(1) by (rule findById_uid)
  have 1: "\<exists>s'. permanentDeleteUser userId reason (s\<lparr>clock := t\<rparr>) = (Inr (), s')
              \<and> findById userId s' = None"
    using permanentDeleteUser_ok [of userId "s\<lparr>clock := t\<rparr>" u a reason] assms id by simp
  have 2: "isDeleted u1 \<and> deletedAt u1 = Some (clock s0) \<and> findById userId s1 = Some u1"
    if sd: "softDeleteUser userId r0 s0 = (Inr u1, s1)" for r0 s0 u1 s1
  proof -
    obtain v b where v: "findById userId s0 = Some v" and b: "getCurrentAdmin s0 = Inr b"
      and nb: "uid b \<noteq> userId" and nl: "\<not> (role v = ADMIN \<and> adminCount s0 \<le> 1)"
      using softDeleteUser_pre [OF sd] by blast
    have "uid v = userId" using v by (rule findById_uid)
    with softDeleteUser_ok [OF v b nb nl, of r0] sd show ?thesis by auto
  qed
  from 1 2 show ?thesis by blast
qed

theorem permanentDeleteUser_without_deletedAt_witness:
  "findById 42 (asAlice [alice, mallory\<lparr>isDeleted := True, deletedAt := None, isActive := False\<rparr>])
     = Some (mallory\<lparr>isDeleted := True, deletedAt := None, isActive := False\<rparr>)
   \<and> fst (permanentDeleteUser 42 ''purge''
        ((asAlice [alice, mallory\<lparr>isDeleted := True, deletedAt := None, isActive := False\<rparr>])
           \<lparr>clock := days 1001\<rparr>))
       = Inr ()
   \<and> findById 42 (snd (permanentDeleteUser 42 ''purge''
        ((asAlice [alice, mallory\<lparr>isDeleted := True, deletedAt := None, isActive := False\<rparr>])
           \<lparr>clock := days 1001\<rparr>)))
       = None
   \<and> fst (softDeleteUser 42 ''spam'' (asAlice [alice, mallory]))
       = Inr (mallory\<lparr>isDeleted := True, deletedAt := Some (days 1000), isActive := False\<rparr>)"
proof -
  let ?d = "mallory\<lparr>isDeleted := True, deletedAt := None, isActive := False\<rparr>"
  let ?s = "asAlice [alice, ?d]"
  have cnt: "adminCount (asAlice [alice, mallory]) = 1"
    by (simp add: adminCount_def findAll_def asAlice_def alice_def mallory_def mkUser_def)
  have sd: "fst (softDeleteUser 42 ''spam'' (asAlice [alice, mallory]))
       = Inr (mallory\<lparr>isDeleted := True, deletedAt := Some (days 1000), isActive := False\<rparr>)"
    using softDeleteUser_ok [of 42 "asAlice [alice, mallory]" mallory alice "''spam''"] cnt
    by (simp add: clock_asAlice)
  have f: "findById 42 ?s = Some ?d"
    by (simp add: findById_def asAlice_def alice_def mallory_def mkUser_def)
  have a: "getCurrentAdmin ?s = Inr alice" by simp
  have na: "uid alice \<noteq> 42" by simp
  have nl: "\<not> (role ?d = ADMIN \<and> adminCount ?s \<le> 1)" by simp
  have d: "isDeleted ?d" "deletedAt ?d = None" by simp_all
  from permanentDeleteUser_without_deletedAt [OF f d a na nl, of "''purge''" "days 1001",
      THEN conjunct1]
  obtain s' where "permanentDeleteUser 42 ''purge'' (?s\<lparr>clock := days 1001\<rparr>) = (Inr (), s')"
    and "findById 42 s' = None"
    by blast
  with sd f show ?thesis by simp
qed

section \<open>The audit trail\<close>

text \<open>
  The two shapes an operation's body ends in: a throw, which the transaction rolls
  back, and the audit entry written after the last save.
\<close>

lemma auditLog_save: "auditLog (save u s) = auditLog s"
  by (simp add: save_def)

lemma audited_logged:
  assumes "auditLog s1 = auditLog s"
  shows "audited aType tId s
           (case logged aType tId reason meta r s1 of
              (Inl e, _) \<Rightarrow> (Inl e, s) | (Inr r', s') \<Rightarrow> (Inr r', s'))"
  using assms
  by (auto simp: audited_def logged_def logAction_def auditSave_def split: sum.splits)

lemma audited_throw: "audited aType tId s (Inl e, s)"
  by (simp add: audited_def)

lemma audited_suspendUser: "audited ''SUSPEND'' userId s (suspendUser userId until reason s)"
  by (auto simp: suspendUser_def transactional_def Let_def audited_throw audited_logged auditLog_save
      split: sum.splits option.splits)

lemma audited_banUser: "audited ''BAN'' userId s (banUser userId reason s)"
  by (auto simp: banUser_def transactional_def Let_def audited_throw audited_logged auditLog_save
      split: sum.splits option.splits)

lemma audited_unsuspendUser: "audited ''UNSUSPEND'' userId s (unsuspendUser userId reason s)"
  by (auto simp: unsuspendUser_def transactional_def Let_def audited_throw audited_logged auditLog_save
      split: sum.splits option.splits)

lemma audited_unbanUser: "audited ''UNBAN'' userId s (unbanUser userId reason s)"
  by (auto simp: unbanUser_def transactional_def Let_def audited_throw audited_logged auditLog_save
      split: sum.splits option.splits)

lemma audited_softDeleteUser: "audited ''SOFT_DELETE'' userId s (softDeleteUser userId reason s)"
  by (auto simp: softDeleteUser_def transactional_def Let_def audited_throw audited_logged auditLog_save
      split: sum.splits option.splits)

lemma audited_restoreUser: "audited ''RESTORE'' userId s (restoreUser userId reason s)"
  by (auto simp: restoreUser_def transactional_def Let_def audited_throw audited_logged auditLog_save
      split: sum.splits option.splits)

lemma audited_permanentDeleteUser:
  "audited ''PERMANENT_DELETE'' userId s (permanentDeleteUser userId reason s)"
  by (auto simp: permanentDeleteUser_def transactional_def Let_def audited_def logAction_def
      auditSave_def delete_def split: sum.splits option.splits)

lemma audited_updateUserRole:
  "audited ''ROLE_CHANGE'' userId s (updateUserRole userId newRole reason s)"
  by (auto simp: updateUserRole_def transactional_def Let_def audited_throw audited_logged auditLog_save
      split: sum.splits option.splits)

lemma audited_disableLogin: "audited ''DISABLE_LOGIN'' userId s (disableLogin userId reason s)"
  by (auto simp: disableLogin_def transactional_def Let_def audited_throw audited_logged auditLog_save
      split: sum.splits option.splits)

lemma audited_enableLogin: "audited ''ENABLE_LOGIN'' userId s (enableLogin userId reason s)"
  by (auto simp: enableLogin_def transactional_def Let_def audited_throw audited_logged auditLog_save
      split: sum.splits option.splits)

text \<open>
  C7. Each of the ten user operations, on success, leaves the audit log longer by
  exactly one entry, whose \<open>targetId\<close> is the operation's target and whose
  \<open>actionType\<close> is the operation's; on failure it leaves the audit log as it was.
\<close>

theorem audit_trail:
  "audited ''SUSPEND'' userId s (suspendUser userId until reason s)
   \<and> audited ''BAN'' userId s (banUser userId reason s)
   \<and> audited ''UNSUSPEND'' userId s (unsuspendUser userId reason s)
   \<and> audited ''UNBAN'' userId s (unbanUser userId reason s)
   \<and> audited ''SOFT_DELETE'' userId s (softDeleteUser userId reason s)
   \<and> audited ''RESTORE'' userId s (restoreUser userId reason s)
   \<and> audited ''PERMANENT_DELETE'' userId s (permanentDeleteUser userId reason s)
   \<and> audited ''ROLE_CHANGE'' userId s (updateUserRole userId newRole reason s)
   \<and> audited ''DISABLE_LOGIN'' userId s (disableLogin userId reason s)
   \<and> audited ''ENABLE_LOGIN'' userId s (enableLogin userId reason s)"
  by (intro conjI audited_suspendUser audited_banUser audited_unsuspendUser audited_unbanUser
      audited_softDeleteUser audited_restoreUser audited_permanentDeleteUser
      audited_updateUserRole audited_disableLogin audited_enableLogin)

theorem audit_trail_witness:
  "fst (banUser 42 ''spam'' (asAlice [alice, mallory]))
     = Inr (mallory\<lparr>bannedAt := Some (days 1000), banReason := Some ''spam'', isActive := False\<rparr>)
   \<and> auditLog (asAlice [alice, mallory]) = []
   \<and> length (auditLog (snd (banUser 42 ''spam'' (asAlice [alice, mallory])))) = 1
   \<and> targetId (last (auditLog (snd (banUser 42 ''spam'' (asAlice [alice, mallory]))))) = 42
   \<and> actionType (last (auditLog (snd (banUser 42 ''spam'' (asAlice [alice, mallory]))))) = ''BAN''
   \<and> fst (banUser 1 ''spam'' (asAlice [alice, mallory])) = Inl (SelfModification ''ban'')
   \<and> auditLog (snd (banUser 1 ''spam'' (asAlice [alice, mallory]))) = []"
proof -
  let ?s = "asAlice [alice, mallory]"
  have cnt: "adminCount ?s = 1"
    by (simp add: adminCount_def findAll_def asAlice_def alice_def mallory_def mkUser_def)
  have ok: "fst (banUser 42 ''spam'' ?s)
     = Inr (mallory\<lparr>bannedAt := Some (days 1000), banReason := Some ''spam'', isActive := False\<rparr>)"
    using banUser_ok [of 42 ?s mallory alice "''spam''"] by (simp add: clock_asAlice)
  have no: "fst (banUser 1 ''spam'' ?s) = Inl (SelfModification ''ban'')"
    by (simp add: banUser_def transactional_def checkSelfModification_def)
  have e: "auditLog ?s = []" by (simp add: asAlice_def)
  from audit_trail [of 42 ?s "days 1007" "''spam''" USER]
  have "audited ''BAN'' 42 ?s (banUser 42 ''spam'' ?s)" by blast
  with ok e have 1: "length (auditLog (snd (banUser 42 ''spam'' ?s))) = 1
    \<and> targetId (last (auditLog (snd (banUser 42 ''spam'' ?s)))) = 42
    \<and> actionType (last (auditLog (snd (banUser 42 ''spam'' ?s)))) = ''BAN''"
    by (cases "banUser 42 ''spam'' ?s") (simp add: audited_def)
  from audit_trail [of 1 ?s "days 1007" "''spam''" USER]
  have "audited ''BAN'' 1 ?s (banUser 1 ''spam'' ?s)" by blast
  with no e have 2: "auditLog (snd (banUser 1 ''spam'' ?s)) = []"
    by (cases "banUser 1 ''spam'' ?s") (simp add: audited_def)
  from ok no e 1 2 show ?thesis by simp
qed

end
